theory Spec2Isabelle
  imports Main "HOL-Library.Sublist" "HOL-Library.Word"
begin

section \<open>JSON values and their serialisation\<close>

text \<open>
  The client of \<^verbatim>\<open>multimodal-live-client\<close> scans \<^verbatim>\<open>JSON.stringify\<close> output for
  markers, tests \<^verbatim>\<open>typeof\<close>, truthiness and \<^verbatim>\<open>Array.isArray\<close> on the arguments of a
  function call, and reads their keys. A parsed frame is therefore kept as a JSON value.
  Numbers are integers here (floating point is not modelled); an object is the list of
  its own properties in insertion order.
\<close>

datatype json =
    JNull
  | JBool bool
  | JNum int
  | JString string
  | JArray "json list"
  | JObject "(string \<times> json) list"

definition hexDigit :: "nat \<Rightarrow> char" where
  "hexDigit n = (''0123456789abcdef'' ! (n mod 16))"

text \<open>
  \<^verbatim>\<open>QuoteJSONString\<close> of ECMAScript: the double quote and the backslash are escaped, the
  control characters below 0x20 become their short escape or \<^verbatim>\<open>\u00xx\<close>, every other
  character stands for itself.
\<close>

definition quoteChar :: "char \<Rightarrow> string" where
  "quoteChar c =
     (if c = CHR 0x22 then [CHR 0x5C, CHR 0x22]
      else if c = CHR 0x5C then [CHR 0x5C, CHR 0x5C]
      else if c = CHR 0x08 then [CHR 0x5C, CHR ''b'']
      else if c = CHR 0x0C then [CHR 0x5C, CHR ''f'']
      else if c = CHR 0x0A then [CHR 0x5C, CHR ''n'']
      else if c = CHR 0x0D then [CHR 0x5C, CHR ''r'']
      else if c = CHR 0x09 then [CHR 0x5C, CHR ''t'']
      else if (of_char c :: nat) < 32
        then [CHR 0x5C, CHR ''u'', CHR ''0'', CHR ''0'',
              hexDigit ((of_char c :: nat) div 16), hexDigit (of_char c)]
      else [c])"

definition quoteJSONString :: "string \<Rightarrow> string" where
  "quoteJSONString s = [CHR 0x22] @ concat (map quoteChar s) @ [CHR 0x22]"

fun showNat :: "nat \<Rightarrow> string" where
  "showNat n = (if n < 10 then [hexDigit n] else showNat (n div 10) @ [hexDigit (n mod 10)])"

declare showNat.simps [simp del]

definition showInt :: "int \<Rightarrow> string" where
  "showInt i = (if i < 0 then CHR ''-'' # showNat (nat (- i)) else showNat (nat i))"

fun join :: "string \<Rightarrow> string list \<Rightarrow> string" where
  "join sep [] = []"
| "join sep [x] = x"
| "join sep (x # y # ys) = x @ sep @ join sep (y # ys)"

text \<open>\<^verbatim>\<open>JSON.stringify(v)\<close> with no indentation.\<close>

fun stringify :: "json \<Rightarrow> string" where
  "stringify JNull = ''null''"
| "stringify (JBool b) = (if b then ''true'' else ''false'')"
| "stringify (JNum n) = showInt n"
| "stringify (JString s) = quoteJSONString s"
| "stringify (JArray xs) = ''['' @ join '','' (map stringify xs) @ '']''"
| "stringify (JObject kvs) =
     ''{'' @ join '','' (map (\<lambda>(k, v). quoteJSONString k @ '':'' @ stringify v) kvs) @ ''}''"

text \<open>\<^verbatim>\<open>String.prototype.includes\<close> and \<^verbatim>\<open>startsWith\<close>.\<close>

fun str_includes :: "string \<Rightarrow> string \<Rightarrow> bool" where
  "str_includes [] p = (p = [])"
| "str_includes (c # cs) p = (prefix p (c # cs) \<or> str_includes cs p)"

definition startsWith :: "string \<Rightarrow> string \<Rightarrow> bool" where
  "startsWith s p = prefix p s"

text \<open>
  \<^verbatim>\<open>String.prototype.split\<close> with a non-empty separator: \<open>splitAux sep k acc s\<close> has
  \<open>k\<close> characters of a separator still to skip and \<open>acc\<close> the current piece, reversed.
\<close>

fun splitAux :: "string \<Rightarrow> nat \<Rightarrow> string \<Rightarrow> string \<Rightarrow> string list" where
  "splitAux sep k acc [] = [rev acc]"
| "splitAux sep (Suc k) acc (c # cs) = splitAux sep k acc cs"
| "splitAux sep 0 acc (c # cs) =
     (if prefix sep (c # cs) then rev acc # splitAux sep (length sep - 1) [] cs
      else splitAux sep 0 (c # acc) cs)"

definition split :: "string \<Rightarrow> string \<Rightarrow> string list" where
  "split s sep = splitAux sep 0 [] s"

text \<open>Indexing an array: \<^verbatim>\<open>undefined\<close> out of range.\<close>

fun nth_opt :: "'a list \<Rightarrow> nat \<Rightarrow> 'a option" where
  "nth_opt [] n = None"
| "nth_opt (x # xs) 0 = Some x"
| "nth_opt (x # xs) (Suc n) = nth_opt xs n"

text \<open>
  The value of an expression that may be \<^verbatim>\<open>undefined\<close> is a \<open>json option\<close>:
  \<^verbatim>\<open>typeof\<close>, truthiness, \<^verbatim>\<open>Array.isArray\<close>, a property read and
  \<^verbatim>\<open>Object.keys\<close>.
\<close>

fun typeof :: "json option \<Rightarrow> string" where
  "typeof None = ''undefined''"
| "typeof (Some JNull) = ''object''"
| "typeof (Some (JBool b)) = ''boolean''"
| "typeof (Some (JNum n)) = ''number''"
| "typeof (Some (JString s)) = ''string''"
| "typeof (Some (JArray xs)) = ''object''"
| "typeof (Some (JObject kvs)) = ''object''"

fun truthy :: "json option \<Rightarrow> bool" where
  "truthy None = False"
| "truthy (Some JNull) = False"
| "truthy (Some (JBool b)) = b"
| "truthy (Some (JNum n)) = (n \<noteq> 0)"
| "truthy (Some (JString s)) = (s \<noteq> [])"
| "truthy (Some (JArray xs)) = True"
| "truthy (Some (JObject kvs)) = True"

fun isArray :: "json option \<Rightarrow> bool" where
  "isArray (Some (JArray xs)) = True"
| "isArray v = False"

fun getProp :: "json option \<Rightarrow> string \<Rightarrow> json option" where
  "getProp (Some (JObject kvs)) k = map_of kvs k"
| "getProp v k = None"

fun objectKeys :: "json option \<Rightarrow> string list" where
  "objectKeys (Some (JObject kvs)) = map fst kvs"
| "objectKeys (Some (JArray xs)) = map showNat [0 ..< length xs]"
| "objectKeys v = []"

section \<open>Messages, events and the client\<close>

text \<open>
  A content part of \<^verbatim>\<open>@google/generative-ai\<close>: text, inline data (media type and base64
  payload) or an executable-code block (language and code).
\<close>

datatype part =
    TextPart string
  | InlineDataPart string string
  | ExecutableCodePart string string

fun part_json :: "part \<Rightarrow> json" where
  "part_json (TextPart t) = JObject [(''text'', JString t)]"
| "part_json (InlineDataPart m d) =
     JObject [(''inlineData'', JObject [(''mimeType'', JString m), (''data'', JString d)])]"
| "part_json (ExecutableCodePart l c) =
     JObject [(''executableCode'', JObject [(''language'', JString l), (''code'', JString c)])]"

record function_call =
  call_id :: string
  call_name :: string
  call_args :: "json option"

definition function_call_json :: "function_call \<Rightarrow> json" where
  "function_call_json fc =
     JObject ([(''id'', JString (call_id fc)), (''name'', JString (call_name fc))]
              @ (case call_args fc of None \<Rightarrow> [] | Some a \<Rightarrow> [(''args'', a)]))"

text \<open>The frame \<^verbatim>\<open>{toolCall: {functionCalls: [...]}}\<close> as the parsed value that is serialised.\<close>

definition toolCallMessage_json :: "function_call list \<Rightarrow> json" where
  "toolCallMessage_json calls =
     JObject [(''toolCall'', JObject [(''functionCalls'', JArray (map function_call_json calls))])]"

record function_response =
  resp_id :: string
  resp_response :: json

text \<open>
  The type guards \<^verbatim>\<open>isInterrupted\<close>, \<^verbatim>\<open>isTurnComplete\<close> and \<^verbatim>\<open>isModelTurn\<close> live in
  \<^verbatim>\<open>multimodal-live-types\<close>, which is not among the sources: a \<open>server_content\<close> value
  records what they answer on the frame, and \<open>modelTurn\<close> the parts when \<^verbatim>\<open>isModelTurn\<close>
  holds. In the same way an inbound frame is kept as the variant that the guards
  \<^verbatim>\<open>isToolCallMessage\<close>, \<^verbatim>\<open>isToolCallCancellationMessage\<close>, \<^verbatim>\<open>isSetupCompleteMessage\<close> and
  \<^verbatim>\<open>isServerContentMessage\<close> select, tried in that order.
\<close>

record server_content =
  isInterrupted :: bool
  isTurnComplete :: bool
  modelTurn :: "part list option"

datatype incoming =
    ToolCallMessage "function_call list"
  | ToolCallCancellationMessage "string list"
  | SetupCompleteMessage
  | ServerContentMessage server_content
  | UnmatchedMessage

type_synonym handle = nat
type_synonym addr = nat
type_synonym arraybuffer = "8 word list"

datatype outgoing =
    SetupMessage addr
  | ClientContentMessage "(string \<times> part list) list" bool
  | ToolResponseMessage "function_response list"

text \<open>
  The events of \<^verbatim>\<open>MultimodalLiveClientEventTypes\<close>. A log event keeps the \<^verbatim>\<open>type\<close> of
  the \<^verbatim>\<open>StreamingLog\<close>; its date and message are left out.
\<close>

datatype event =
    EvOpen
  | EvLog string
  | EvClose
  | EvAudio arraybuffer
  | EvContent "part list"
  | EvInterrupted
  | EvSetupComplete
  | EvTurnComplete
  | EvToolCall "function_call list"
  | EvToolCallCancellation "string list"

text \<open>
  What a method does to the outside, in order: an event given to the listeners, a socket
  created, a frame written to a socket, a socket closed, a PDF requested. Output on the
  console is left out.
\<close>

datatype effect =
    Emit event
  | NewWebSocket handle string
  | WsSend handle outgoing
  | WsClose handle
  | Fetch json

datatype error = Error string | Reason string

record client =
  ws :: "handle option"
  config :: "addr option"
  url :: string

text \<open>
  What the client is given from outside: \<^verbatim>\<open>base64ToArrayBuffer\<close> of \<^verbatim>\<open>lib/utils\<close> (not
  among the sources), the answer of the network to the request for a PDF, and what the
  handlers that run while the lookups of a frame are pending make of the client. After
  \<^verbatim>\<open>await Promise.all\<close> the code reads \<^verbatim>\<open>this.ws\<close> again, and \<^verbatim>\<open>disconnect\<close>, a close
  event or the \<^verbatim>\<open>open\<close> listener of a later \<^verbatim>\<open>connect\<close> may have assigned it meanwhile:
  \<open>afterAwait\<close> gives the client as it is when the lookups have settled.
\<close>

datatype http_result =
    NetworkError string
  | HttpResponse bool string "json option"

record env =
  base64ToArrayBuffer :: "string \<Rightarrow> arraybuffer"
  http_fetch :: "json \<Rightarrow> http_result"
  afterAwait :: "client \<Rightarrow> client"

section \<open>Computations with effects and exceptions\<close>

text \<open>
  A method body yields the effects it had and either the exception it threw (\<open>Inl\<close>) or
  its value. Receiving a frame assigns no field of the client, so the client is read
  only there: it is the client as it is when the frame is processed, and after the one
  \<^verbatim>\<open>await\<close> inside the processing it is the client that \<open>afterAwait\<close> gives.
\<close>

type_synonym 'a comp = "effect list \<times> (error + 'a)"

definition ok :: "'a \<Rightarrow> 'a comp" where
  "ok a = ([], Inr a)"

definition throw :: "error \<Rightarrow> 'a comp" where
  "throw e = ([], Inl e)"

definition bind :: "'a comp \<Rightarrow> ('a \<Rightarrow> 'b comp) \<Rightarrow> 'b comp" where
  "bind m f =
     (case m of
        (t, Inl e) \<Rightarrow> (t, Inl e)
      | (t, Inr a) \<Rightarrow> (case f a of (t', r) \<Rightarrow> (t @ t', r)))"

definition andThen :: "unit comp \<Rightarrow> 'b comp \<Rightarrow> 'b comp" where
  "andThen m k = bind m (\<lambda>_. k)"

definition emit :: "event \<Rightarrow> unit comp" where
  "emit ev = ([Emit ev], Inr ())"

definition log :: "string \<Rightarrow> unit comp" where
  "log type = emit (EvLog type)"

section \<open>Sending\<close>

text \<open>\<^verbatim>\<open>_sendDirect\<close>: throws when no socket is owned, else writes the frame to it.\<close>

definition sendDirect :: "client \<Rightarrow> outgoing \<Rightarrow> unit comp" where
  "sendDirect s request =
     (case ws s of
        None \<Rightarrow> throw (Error ''WebSocket is not connected'')
      | Some h \<Rightarrow> ([WsSend h request], Inr ()))"

definition sendToolResponse :: "client \<Rightarrow> function_response list \<Rightarrow> unit comp" where
  "sendToolResponse s functionResponses =
     andThen (sendDirect s (ToolResponseMessage functionResponses)) (log ''client.toolResponse'')"

definition send :: "client \<Rightarrow> part list \<Rightarrow> bool \<Rightarrow> unit comp" where
  "send s parts turnComplete =
     andThen (sendDirect s (ClientContentMessage [(''user'', parts)] turnComplete))
             (log ''client.send'')"

section \<open>The tool-call gatekeeper\<close>

text \<open>
  The test on the serialised frame that \<^verbatim>\<open>receive\<close> writes out twice, once for a tool
  call and once for the parts of a model turn.
\<close>

definition hasCodeSyntax :: "string \<Rightarrow> bool" where
  "hasCodeSyntax responseStr =
     (str_includes responseStr ''executableCode'' \<or> str_includes responseStr ''print('' \<or>
      str_includes responseStr ''PYTHON'' \<or> str_includes responseStr ''code>'')"

definition invalidPatterns :: "string list" where
  "invalidPatterns =
     [''print('', ''pdf_lookup('', ''default_api'', ''queries='', ''question='', ''uri='',
      ''function('', ''.lookup('', ''executableCode'', ''PYTHON'', ''python'', ''console.log'',
      ''google_search'', ''search('', ''code>'', ''pre>'', ''h5>'', ''executableCode: PYTHON'',
      ''code'', ''pre'']"

definition hasInvalidPattern :: "string \<Rightarrow> bool" where
  "hasInvalidPattern argsStr = list_ex (\<lambda>pattern. str_includes argsStr pattern) invalidPatterns"

definition example_json :: "string \<Rightarrow> json" where
  "example_json uri =
     JObject [(''name'', JString ''pdf_lookup''),
              (''args'', JObject [(''pdfUri'', JString uri)])]"

definition codeSyntaxResponse :: "string \<Rightarrow> function_response" where
  "codeSyntaxResponse i =
     \<lparr>resp_id = i,
      resp_response = JObject [(''error'', JString ''CODE SYNTAX DETECTED: Must use pure JSON format''),
                               (''example'', example_json ''uri_here'')]\<rparr>"

definition invalidFormatResponse :: "string \<Rightarrow> function_response" where
  "invalidFormatResponse i =
     \<lparr>resp_id = i,
      resp_response = JObject [(''error'', JString ''INVALID FORMAT: Use only this JSON structure:''),
                               (''example'', example_json ''your_uri_here'')]\<rparr>"

definition invalidStructureResponse :: "string \<Rightarrow> function_response" where
  "invalidStructureResponse i =
     \<lparr>resp_id = i,
      resp_response = JObject [(''error'', JString ''INVALID STRUCTURE: Only pdfUri parameter is allowed''),
                               (''example'', example_json ''your_uri_here'')]\<rparr>"

definition fetchFailedResponse :: "string \<Rightarrow> function_response" where
  "fetchFailedResponse i =
     \<lparr>resp_id = i,
      resp_response = JObject
        [(''error'', JString (''Failed to fetch PDF content. Remember to use JSON format: { ''
            @ [CHR 0x22] @ ''name'' @ [CHR 0x22] @ '': '' @ [CHR 0x22] @ ''pdf_lookup'' @ [CHR 0x22]
            @ '', '' @ [CHR 0x22] @ ''args'' @ [CHR 0x22] @ '': { '' @ [CHR 0x22] @ ''pdfUri''
            @ [CHR 0x22] @ '': '' @ [CHR 0x22] @ ''uri_here'' @ [CHR 0x22] @ '' } }'')),
         (''example'', example_json ''your_uri_here'')]\<rparr>"

definition textResponse :: "string \<Rightarrow> json \<Rightarrow> function_response" where
  "textResponse i fileText = \<lparr>resp_id = i, resp_response = JObject [(''text'', fileText)]\<rparr>"

text \<open>
  The id the frame-level rejection answers to:
  \<^verbatim>\<open>response.toolCall.functionCalls[0]?.id || 'error'\<close>.
\<close>

definition firstIdOrError :: "function_call list \<Rightarrow> string" where
  "firstIdOrError calls =
     (case nth_opt calls 0 of
        None \<Rightarrow> ''error''
      | Some fc \<Rightarrow> (if call_id fc = [] then ''error'' else call_id fc))"

text \<open>
  The callback of \<^verbatim>\<open>functionCalls.filter\<close>: the answer for one call, with the logs and
  corrective responses sent on the way. The source repeats the test for an invalid pattern;
  so does the model.
\<close>

definition checkCall :: "client \<Rightarrow> function_call \<Rightarrow> bool comp" where
  "checkCall s fc =
     andThen (log ''server.debug'')
       (if call_name fc \<noteq> ''pdf_lookup'' then andThen (log ''server.debug'') (ok False)
        else if typeof (call_args fc) \<noteq> ''object'' \<or> \<not> truthy (call_args fc) \<or> isArray (call_args fc)
          then andThen (log ''server.error'') (ok False)
        else
          (let argsStr = (case call_args fc of Some a \<Rightarrow> stringify a | None \<Rightarrow> []) in
           andThen (log ''server.debug'')
             (if hasInvalidPattern argsStr then
                andThen (log ''server.debug'')
                  (andThen (sendToolResponse s [invalidFormatResponse (call_id fc)]) (ok False))
              else if list_ex (\<lambda>pattern. str_includes argsStr pattern) invalidPatterns then
                andThen (log ''server.error'')
                  (andThen (sendToolResponse s [invalidFormatResponse (call_id fc)]) (ok False))
              else if \<not> truthy (getProp (call_args fc) ''pdfUri'')
                      \<or> length (objectKeys (call_args fc)) \<noteq> 1 then
                andThen (log ''server.error'')
                  (andThen (sendToolResponse s [invalidStructureResponse (call_id fc)]) (ok False))
              else ok True)))"

text \<open>\<^verbatim>\<open>Array.prototype.filter\<close> with that callback: an exception of the callback ends it.\<close>

fun filterCalls :: "client \<Rightarrow> function_call list \<Rightarrow> function_call list comp" where
  "filterCalls s [] = ok []"
| "filterCalls s (fc # fcs) =
     bind (checkCall s fc) (\<lambda>keep.
       bind (filterCalls s fcs) (\<lambda>rest. ok (if keep then fc # rest else rest)))"

text \<open>
  \<^verbatim>\<open>fetchPdfText\<close>: the request is identified by the \<^verbatim>\<open>pdfUri\<close> put into its address. A
  network failure or a reply that is not \<^verbatim>\<open>ok\<close> throws; otherwise the result is
  \<^verbatim>\<open>data.text || ''\<close>, where the third field of the reply is the \<^verbatim>\<open>text\<close> member of its
  body.
\<close>

definition fetchPdfText :: "env \<Rightarrow> json \<Rightarrow> error + json" where
  "fetchPdfText e pdfUri =
     (case http_fetch e pdfUri of
        NetworkError m \<Rightarrow> Inl (Error m)
      | HttpResponse is_ok statusText txt \<Rightarrow>
          (if \<not> is_ok then Inl (Error (''Failed to fetch PDF content: '' @ statusText))
           else Inr (case txt of
                       None \<Rightarrow> JString []
                     | Some v \<Rightarrow> (if truthy (Some v) then v else JString []))))"

text \<open>
  The callback of \<^verbatim>\<open>pdfLookupCalls.map\<close>: the request it starts, and the outcome of its
  promise.
\<close>

definition lookupCall :: "env \<Rightarrow> function_call \<Rightarrow> effect list \<times> (error + function_response)" where
  "lookupCall e fc =
     (case getProp (call_args fc) ''pdfUri'' of
        None \<Rightarrow> ([], Inl (Error ''Missing required parameter: pdfUri''))
      | Some pdfUri \<Rightarrow>
          (if \<not> truthy (Some pdfUri) then ([], Inl (Error ''Missing required parameter: pdfUri''))
           else ([Fetch pdfUri],
                 (case fetchPdfText e pdfUri of
                    Inl err \<Rightarrow> Inl err
                  | Inr fileText \<Rightarrow> Inr (textResponse (call_id fc) fileText)))))"

text \<open>
  \<^verbatim>\<open>Promise.all\<close> over the mapped calls: every callback runs and starts its request; the
  result is the list of values when every promise fulfils, else a rejection (the one of
  the first rejected call in list order is taken).
\<close>

fun promiseAll :: "(effect list \<times> (error + 'a)) list \<Rightarrow> 'a list comp" where
  "promiseAll [] = ([], Inr [])"
| "promiseAll ((t, r) # ps) =
     (case promiseAll ps of
        (ts, rs) \<Rightarrow>
          (t @ ts,
           (case r of
              Inl err \<Rightarrow> Inl err
            | Inr a \<Rightarrow> (case rs of Inl err \<Rightarrow> Inl err | Inr as \<Rightarrow> Inr (a # as)))))"

text \<open>
  The \<^verbatim>\<open>try\<close> block around the lookups and its \<^verbatim>\<open>catch\<close>. The requests are started by
  the client \<open>s\<close> that processes the frame; both sends come after the \<^verbatim>\<open>await\<close> and are
  made by the client as it is then.
\<close>

definition executeCalls :: "env \<Rightarrow> client \<Rightarrow> function_call list \<Rightarrow> unit comp" where
  "executeCalls e s pdfLookupCalls =
     (let s' = afterAwait e s in
      case bind (promiseAll (map (lookupCall e) pdfLookupCalls)) (sendToolResponse s') of
        (t, Inr u) \<Rightarrow> (t, Inr u)
      | (t, Inl err) \<Rightarrow>
          (case sendToolResponse s' (map (\<lambda>fc. fetchFailedResponse (call_id fc)) pdfLookupCalls) of
             (t', r) \<Rightarrow> (t @ t', r)))"

definition receiveToolCall :: "env \<Rightarrow> client \<Rightarrow> function_call list \<Rightarrow> unit comp" where
  "receiveToolCall e s calls =
     andThen (log ''server.toolCall'')
       (andThen (log ''server.debug'')
          (if hasCodeSyntax (stringify (toolCallMessage_json calls)) then
             sendToolResponse s [codeSyntaxResponse (firstIdOrError calls)]
           else
             bind (filterCalls s calls) (\<lambda>pdfLookupCalls.
               andThen (if length pdfLookupCalls > 0 then executeCalls e s pdfLookupCalls else ok ())
                 (emit (EvToolCall calls)))))"

section \<open>The content and audio demultiplexer\<close>

definition isAudioPart :: "part \<Rightarrow> bool" where
  "isAudioPart p =
     (case p of InlineDataPart mimeType d \<Rightarrow> startsWith mimeType ''audio/pcm'' | _ \<Rightarrow> False)"

text \<open>\<^verbatim>\<open>p.inlineData?.data\<close>\<close>

definition inlineDataOf :: "part \<Rightarrow> string option" where
  "inlineDataOf p = (case p of InlineDataPart mimeType d \<Rightarrow> Some d | _ \<Rightarrow> None)"

text \<open>
  \<^verbatim>\<open>difference\<close> of lodash: the elements of the first array that are not in the second.
  Lodash compares objects by identity; parts are compared by value here, which removes
  the same elements when the second array is a selection of the first by a property of
  the value.
\<close>

definition difference :: "'a list \<Rightarrow> 'a list \<Rightarrow> 'a list" where
  "difference xs ys = filter (\<lambda>x. x \<notin> set ys) xs"

text \<open>The \<^verbatim>\<open>forEach\<close> over the payloads: an absent or empty payload is passed over.\<close>

fun emitAudio :: "env \<Rightarrow> string option list \<Rightarrow> unit comp" where
  "emitAudio e [] = ok ()"
| "emitAudio e (b64 # rest) =
     andThen
       (case b64 of
          None \<Rightarrow> ok ()
        | Some d \<Rightarrow>
            (if d = [] then ok ()
             else andThen (emit (EvAudio (base64ToArrayBuffer e d))) (log ''server.audio'')))
       (emitAudio e rest)"

text \<open>
  The corrective text of the guard. The file id is
  \<^verbatim>\<open>this.url.split('files/')[1]?.split('/')[0] || 'your_file_uri'\<close>; the three pictographs of
  the text are the bytes of their UTF-8 encoding.
\<close>

definition fileIdOfUrl :: "string \<Rightarrow> string" where
  "fileIdOfUrl u =
     (case nth_opt (split u ''files/'') 1 of
        None \<Rightarrow> ''your_file_uri''
      | Some rest \<Rightarrow>
          (case nth_opt (split rest ''/'') 0 of
             None \<Rightarrow> ''your_file_uri''
           | Some i \<Rightarrow> (if i = [] then ''your_file_uri'' else i)))"

definition errorMessageText :: "string \<Rightarrow> string" where
  "errorMessageText u =
     join [CHR 0x0A]
       [[CHR 0xE2, CHR 0x9A, CHR 0xA0, CHR 0xEF, CHR 0xB8, CHR 0x8F]
          @ '' ERROR: Invalid syntax detected. You must use this exact JSON format:'',
        ''{'',
        ''  '' @ [CHR 0x22] @ ''name'' @ [CHR 0x22] @ '': '' @ [CHR 0x22] @ ''pdf_lookup''
          @ [CHR 0x22] @ '','',
        ''  '' @ [CHR 0x22] @ ''args'' @ [CHR 0x22] @ '': {'',
        ''    '' @ [CHR 0x22] @ ''pdfUri'' @ [CHR 0x22] @ '': '' @ [CHR 0x22] @ fileIdOfUrl u
          @ [CHR 0x22],
        ''  }'',
        ''}'',
        [],
        [CHR 0xE2, CHR 0x9D, CHR 0x8C] @ '' DO NOT USE:'',
        ''- Python code (print, function calls)'',
        ''- Any programming syntax'',
        ''- Any other parameters'',
        [],
        [CHR 0xE2, CHR 0x9C, CHR 0x85]
          @ '' COPY AND PASTE the exact JSON format above, just change the pdfUri value.'']"

definition errorMessage :: "client \<Rightarrow> part" where
  "errorMessage s = TextPart (errorMessageText (url s))"

text \<open>The body of \<^verbatim>\<open>if (isModelTurn(serverContent))\<close>.\<close>

definition receiveModelTurn :: "env \<Rightarrow> client \<Rightarrow> part list \<Rightarrow> unit comp" where
  "receiveModelTurn e s parts =
     (if hasCodeSyntax (stringify (JArray (map part_json parts))) then
        andThen (log ''server.error'')
          (andThen (send s [errorMessage s] True)
             (emit (EvContent [errorMessage s])))
      else
        (let audioParts = filter isAudioPart parts;
             base64s = map inlineDataOf audioParts;
             otherParts = difference parts audioParts
         in andThen (emitAudio e base64s)
              (if length otherParts = 0 then ok ()
               else andThen (emit (EvContent otherParts)) (log ''server.content''))))"

section \<open>Receiving a frame\<close>

definition receive :: "env \<Rightarrow> client \<Rightarrow> incoming \<Rightarrow> unit comp" where
  "receive e s response =
     (case response of
        ToolCallMessage calls \<Rightarrow> receiveToolCall e s calls
      | ToolCallCancellationMessage ids \<Rightarrow>
          andThen (log ''receive.toolCallCancellation'') (emit (EvToolCallCancellation ids))
      | SetupCompleteMessage \<Rightarrow> andThen (log ''server.send'') (emit EvSetupComplete)
      | ServerContentMessage serverContent \<Rightarrow>
          (if isInterrupted serverContent then
             andThen (log ''receive.serverContent'') (emit EvInterrupted)
           else
             andThen
               (if isTurnComplete serverContent
                then andThen (log ''server.send'') (emit EvTurnComplete) else ok ())
               (case modelTurn serverContent of
                  None \<Rightarrow> ok ()
                | Some parts \<Rightarrow> receiveModelTurn e s parts))
      | UnmatchedMessage \<Rightarrow> ok ())"

section \<open>Connecting and disconnecting\<close>

text \<open>
  \<^verbatim>\<open>disconnect(ws?)\<close>: the answer, the client afterwards and the effects. The condition is
  \<^verbatim>\<open>(!ws || this.ws === ws) && this.ws\<close>.
\<close>

definition disconnect :: "client \<Rightarrow> handle option \<Rightarrow> bool \<times> client \<times> effect list" where
  "disconnect s arg =
     (case ws s of
        Some h \<Rightarrow>
          (if arg = None \<or> ws s = arg
           then (True, s\<lparr>ws := None\<rparr>, [WsClose h, Emit (EvLog ''client.close'')])
           else (False, s, []))
      | None \<Rightarrow> (False, s, []))"

text \<open>
  \<^verbatim>\<open>connect(config)\<close> creates the socket \<open>h\<close> and returns a promise. What the socket does
  next is given: it fires \<^verbatim>\<open>error\<close> before it opens, or it opens. The promise is settled
  by the listener that runs.
\<close>

datatype transport = ErrorBeforeOpen | Opens

datatype settled = Resolved bool | Rejected error

definition onError :: "client \<Rightarrow> handle \<Rightarrow> client \<times> effect list \<times> settled" where
  "onError s h =
     (case disconnect s (Some h) of
        (closed, s', t) \<Rightarrow>
          (let message = ''Could not connect to '' @ [CHR 0x22] @ url s' @ [CHR 0x22]
           in (s', t @ [Emit (EvLog ''server.error'')], Rejected (Error message))))"

definition onOpen :: "client \<Rightarrow> handle \<Rightarrow> client \<times> effect list \<times> settled" where
  "onOpen s h =
     (case config s of
        None \<Rightarrow> (s, [], Rejected (Reason ''Invalid config sent to `connect(config)`''))
      | Some c \<Rightarrow>
          (let s' = s\<lparr>ws := Some h\<rparr>
           in (case andThen (sendDirect s' (SetupMessage c)) (log ''client.send'') of
                 (t, Inl err) \<Rightarrow> (s', [Emit (EvLog ''client.open''), Emit EvOpen] @ t, Rejected err)
               | (t, Inr u) \<Rightarrow>
                   (s', [Emit (EvLog ''client.open''), Emit EvOpen] @ t, Resolved True))))"

definition connect ::
  "client \<Rightarrow> addr option \<Rightarrow> handle \<Rightarrow> transport \<Rightarrow> client \<times> effect list \<times> settled" where
  "connect s cfg h tr =
     (let s1 = s\<lparr>config := cfg\<rparr>
      in (case (case tr of ErrorBeforeOpen \<Rightarrow> onError s1 h | Opens \<Rightarrow> onOpen s1 h) of
            (s2, t, r) \<Rightarrow> (s2, NewWebSocket h (url s1) # t, r)))"

section \<open>The stored configuration\<close>

text \<open>
  A configuration is an object, and \<^verbatim>\<open>this.config\<close> a reference to it. The store is the
  list of the objects allocated so far, an address is an index into it, and an object is
  the list of its properties, each a primitive value or a reference.
\<close>

datatype val = Prim json | Ref addr

type_synonym obj = "(string \<times> val) list"
type_synonym store = "obj list"

text \<open>\<^verbatim>\<open>{ ...this.config }\<close>: a new object with the own properties of the stored one.\<close>

definition getConfig :: "store \<Rightarrow> client \<Rightarrow> addr \<times> store" where
  "getConfig st s =
     (let props = (case config s of
                     None \<Rightarrow> []
                   | Some c \<Rightarrow> (if c < length st then st ! c else []))
      in (length st, st @ [props]))"

text \<open>What a caller can do to an object it holds: assign a property or delete one.\<close>

datatype mutation = Assign string val | Delete string

fun assignProp :: "obj \<Rightarrow> string \<Rightarrow> val \<Rightarrow> obj" where
  "assignProp [] k v = [(k, v)]"
| "assignProp ((k', v') # ps) k v =
     (if k' = k then (k, v) # ps else (k', v') # assignProp ps k v)"

fun mutate :: "addr \<Rightarrow> mutation \<Rightarrow> store \<Rightarrow> store" where
  "mutate a (Assign k v) st = (if a < length st then st[a := assignProp (st ! a) k v] else st)"
| "mutate a (Delete k) st =
     (if a < length st then st[a := filter (\<lambda>p. fst p \<noteq> k) (st ! a)] else st)"

text \<open>
  Reading along a chain of properties, \<^verbatim>\<open>o.p.q\<close>: the value found, if every step but the
  last leads to an object. And a write through such a chain, \<^verbatim>\<open>o.p.q = v\<close>: the object
  that the chain before the last name leads to is the one that is mutated; when the
  chain breaks the write throws and the store is as it was.
\<close>

fun readPath :: "store \<Rightarrow> val \<Rightarrow> string list \<Rightarrow> val option" where
  "readPath st v [] = Some v"
| "readPath st (Prim j) (k # ks) = None"
| "readPath st (Ref a) (k # ks) =
     (if a < length st
      then (case map_of (st ! a) k of None \<Rightarrow> None | Some v \<Rightarrow> readPath st v ks)
      else None)"

definition writePath :: "addr \<Rightarrow> string list \<Rightarrow> string \<Rightarrow> val \<Rightarrow> store \<Rightarrow> store" where
  "writePath a ks k v st =
     (case readPath st (Ref a) ks of
        Some (Ref b) \<Rightarrow> mutate b (Assign k v) st
      | _ \<Rightarrow> st)"

section \<open>Reading the effects\<close>

text \<open>The events given to the listeners, and among them those for audio and content.\<close>

primrec emitted :: "effect list \<Rightarrow> event list" where
  "emitted [] = []"
| "emitted (x # t) = (case x of Emit ev \<Rightarrow> ev # emitted t | _ \<Rightarrow> emitted t)"

definition isAudioOrContent :: "event \<Rightarrow> bool" where
  "isAudioOrContent ev = (case ev of EvAudio b \<Rightarrow> True | EvContent ps \<Rightarrow> True | _ \<Rightarrow> False)"

definition audioContentEvents :: "effect list \<Rightarrow> event list" where
  "audioContentEvents t = filter isAudioOrContent (emitted t)"

definition isToolCallEvent :: "event \<Rightarrow> bool" where
  "isToolCallEvent ev = (case ev of EvToolCall calls \<Rightarrow> True | _ \<Rightarrow> False)"

text \<open>The tool responses written to a socket, each the list of its entries, and the PDFs requested.\<close>

primrec sentResponses :: "effect list \<Rightarrow> function_response list list" where
  "sentResponses [] = []"
| "sentResponses (x # t) =
     (case x of WsSend h (ToolResponseMessage rs) \<Rightarrow> rs # sentResponses t | _ \<Rightarrow> sentResponses t)"

primrec fetches :: "effect list \<Rightarrow> json list" where
  "fetches [] = []"
| "fetches (x # t) = (case x of Fetch u \<Rightarrow> u # fetches t | _ \<Rightarrow> fetches t)"

text \<open>The frames of any kind written to a socket.\<close>

primrec sent :: "effect list \<Rightarrow> outgoing list" where
  "sent [] = []"
| "sent (x # t) = (case x of WsSend h m \<Rightarrow> m # sent t | _ \<Rightarrow> sent t)"

text \<open>The payload of a part, empty when it has none.\<close>

definition payloadOf :: "part \<Rightarrow> string" where
  "payloadOf p = (case inlineDataOf p of Some d \<Rightarrow> d | None \<Rightarrow> [])"

text \<open>
  What the callback of the filter decides for a call when nothing is thrown: whether it
  keeps the call, and the corrective entry it sends, if any.
\<close>

definition argsStrOf :: "function_call \<Rightarrow> string" where
  "argsStrOf fc = (case call_args fc of Some a \<Rightarrow> stringify a | None \<Rightarrow> [])"

definition isPlainObject :: "json option \<Rightarrow> bool" where
  "isPlainObject a = (\<not> (typeof a \<noteq> ''object'' \<or> \<not> truthy a \<or> isArray a))"

definition isValidCall :: "function_call \<Rightarrow> bool" where
  "isValidCall fc =
     (call_name fc = ''pdf_lookup'' \<and> isPlainObject (call_args fc) \<and>
      \<not> hasInvalidPattern (argsStrOf fc) \<and>
      \<not> (\<not> truthy (getProp (call_args fc) ''pdfUri'') \<or> length (objectKeys (call_args fc)) \<noteq> 1))"

definition correction :: "function_call \<Rightarrow> function_response list" where
  "correction fc =
     (if call_name fc \<noteq> ''pdf_lookup'' \<or> \<not> isPlainObject (call_args fc) then []
      else if hasInvalidPattern (argsStrOf fc) then [invalidFormatResponse (call_id fc)]
      else if \<not> truthy (getProp (call_args fc) ''pdfUri'') \<or> length (objectKeys (call_args fc)) \<noteq> 1
        then [invalidStructureResponse (call_id fc)]
      else [])"

text \<open>The PDFs that the lookups of a list of calls request, in order.\<close>

definition requests :: "function_call list \<Rightarrow> json list" where
  "requests cs =
     concat (map (\<lambda>fc. case getProp (call_args fc) ''pdfUri'' of
                          None \<Rightarrow> []
                        | Some u \<Rightarrow> (if truthy (Some u) then [u] else [])) cs)"

text \<open>Whether the response of an entry has a \<^verbatim>\<open>text\<close> member.\<close>

definition hasText :: "function_response \<Rightarrow> bool" where
  "hasText r = (getProp (Some (resp_response r)) ''text'' \<noteq> None)"

section \<open>Example inputs\<close>

definition exampleClient :: client where
  "exampleClient = \<lparr>ws = Some 1, config = Some 0, url = ''wss://host/ws?key=K''\<rparr>"

definition exampleStore :: store where
  "exampleStore =
     [[(''model'', Prim (JString ''models/gemini-2.0-flash-exp'')), (''generationConfig'', Ref 1)],
      [(''temperature'', Prim (JNum 1))]]"

definition exampleEnv :: env where
  "exampleEnv =
     \<lparr>base64ToArrayBuffer = map of_char,
      http_fetch = (\<lambda>u. if u = JString ''files/abc123''
                         then HttpResponse True ''OK'' (Some (JString ''hello world''))
                         else HttpResponse False ''Not Found'' None),
      afterAwait = (\<lambda>s. s)\<rparr>"

text \<open>The same, but the client is disconnected while the lookups are pending.\<close>

definition exampleEnvLost :: env where
  "exampleEnvLost = exampleEnv\<lparr>afterAwait := (\<lambda>s. s\<lparr>ws := None\<rparr>)\<rparr>"

definition exampleClientFiles :: client where
  "exampleClientFiles =
     \<lparr>ws = Some 1, config = Some 0, url = ''wss://host/files/abc123/ws?key=K''\<rparr>"

definition modelTurnOf :: "part list \<Rightarrow> incoming" where
  "modelTurnOf parts =
     ServerContentMessage \<lparr>isInterrupted = False, isTurnComplete = False, modelTurn = Some parts\<rparr>"

definition callA :: function_call where
  "callA = \<lparr>call_id = ''1'', call_name = ''pdf_lookup'',
             call_args = Some (JObject [(''pdfUri'', JString ''files/abc123'')])\<rparr>"

definition callB :: function_call where
  "callB = \<lparr>call_id = ''2'', call_name = ''pdf_lookup'',
             call_args = Some (JObject [(''pdfUri'', JString ''files/abc123''),
                                        (''extra'', JString ''x'')])\<rparr>"

definition callPrint :: function_call where
  "callPrint = \<lparr>call_id = ''3'', call_name = ''pdf_lookup'',
                 call_args = Some (JObject [(''pdfUri'', JString ''print(1)'')])\<rparr>"



definition callMissing :: function_call where
  "callMissing = \<lparr>call_id = ''6'', call_name = ''pdf_lookup'',
                   call_args = Some (JObject [(''pdfUri'', JString ''files/missing'')])\<rparr>"

definition callNoId :: function_call where
  "callNoId = \<lparr>call_id = [], call_name = ''pdf_lookup'',
                call_args = Some (JObject [(''pdfUri'', JString ''print(1)'')])\<rparr>"

section \<open>Disconnecting\<close>

text \<open>
  Claim C8. \<^verbatim>\<open>disconnect(handle)\<close> with a handle that is not the owned socket answers
  false and changes nothing: the client is the same and no socket is closed. When
  \<^verbatim>\<open>disconnect\<close> answers true, a socket was owned and either no handle was given or the
  given handle is the owned one; when it answers false it has done nothing.
\<close>

theorem disconnect_other_handle:
  "(ws s \<noteq> Some h \<longrightarrow> disconnect s (Some h) = (False, s, [])) \<and>
   (fst (disconnect s arg) \<longrightarrow> ws s \<noteq> None \<and> (arg = None \<or> arg = ws s)) \<and>
   (\<not> fst (disconnect s arg) \<longrightarrow> disconnect s arg = (False, s, []))"
  by (auto simp: disconnect_def split: option.splits)

theorem disconnect_other_handle_witness:
  "ws exampleClient \<noteq> Some 2 \<and> disconnect exampleClient (Some 2) = (False, exampleClient, []) \<and>
   fst (disconnect exampleClient (Some 1)) \<and> fst (disconnect exampleClient None) \<and>
   \<not> fst (disconnect (exampleClient\<lparr>ws := None\<rparr>) None) \<and>
   disconnect exampleClient (Some 1)
     = (True, exampleClient\<lparr>ws := None\<rparr>, [WsClose 1, Emit (EvLog ''client.close'')])"
  using disconnect_other_handle [of exampleClient 2 "Some 2"]
  by (simp add: exampleClient_def disconnect_def)

section \<open>A connection attempt that fails\<close>

text \<open>
  While a socket is not yet open the client does not own it: \<^verbatim>\<open>this.ws\<close> is assigned by
  the \<^verbatim>\<open>open\<close> listener only. So the \<^verbatim>\<open>disconnect(ws)\<close> of the \<^verbatim>\<open>error\<close> listener finds
  another reference, or none, and closes nothing. The promise is rejected with the
  address in the message, and nothing is written to any socket.
\<close>

lemma connect_error_general:
  "ws s \<noteq> Some h \<Longrightarrow>
   connect s cfg h ErrorBeforeOpen
     = (s\<lparr>config := cfg\<rparr>,
        [NewWebSocket h (url s), Emit (EvLog ''server.error'')],
        Rejected (Error (''Could not connect to '' @ [CHR 0x22] @ url s @ [CHR 0x22])))"
  by (auto simp: connect_def onError_def disconnect_def Let_def split: option.splits)

text \<open>
  Claim C9, on a client that owns no socket: the attempt for socket 1 errs before it
  opens. The promise rejects with the address in its message and no Setup frame is
  sent, but the socket is not closed: the effects are its creation and a log entry.
\<close>

theorem connect_error_before_open:
  "connect \<lparr>ws = None, config = None, url = ''wss://host/ws?key=K''\<rparr> (Some 0) 1 ErrorBeforeOpen
     = (\<lparr>ws = None, config = Some 0, url = ''wss://host/ws?key=K''\<rparr>,
        [NewWebSocket 1 ''wss://host/ws?key=K'', Emit (EvLog ''server.error'')],
        Rejected (Error (''Could not connect to '' @ [CHR 0x22] @ ''wss://host/ws?key=K'' @ [CHR 0x22])))"
  by (simp add: connect_def onError_def disconnect_def)

section \<open>The copy of the configuration\<close>

lemma mutate_length [simp]: "length (mutate a m st) = length st"
  by (cases m) simp_all

lemma take_mutate: "n \<le> a \<Longrightarrow> take n (mutate a m st) = take n st"
  by (cases m) simp_all

lemma take_fold_mutate: "n \<le> a \<Longrightarrow> take n (fold (mutate a) ms st) = take n st"
  by (induction ms arbitrary: st) (simp_all add: take_mutate)

text \<open>
  Claim C10, as the code has it. \<^verbatim>\<open>getConfig()\<close> returns a new object with the properties
  of the stored configuration, each with the value it has there, a reference being copied
  as the same reference (an empty object when no configuration is stored). Whatever
  sequence of assignments and deletions is then made on the properties of the returned
  object itself, every object that existed before the call, the stored configuration among
  them, is as it was.
\<close>

theorem getConfig_copy:
  "(\<forall>c. config s = Some c \<and> c < length st \<longrightarrow>
      fst (getConfig st s) \<noteq> c \<and> snd (getConfig st s) ! fst (getConfig st s) = st ! c \<and>
      (\<forall>k. readPath (snd (getConfig st s)) (Ref (fst (getConfig st s))) [k]
             = readPath st (Ref c) [k])) \<and>
   (config s = None \<longrightarrow> snd (getConfig st s) ! fst (getConfig st s) = []) \<and>
   take (length st) (fold (mutate (fst (getConfig st s))) ms (snd (getConfig st s))) = st"
  by (simp add: getConfig_def Let_def take_fold_mutate split: option.splits)

theorem getConfig_copy_witness:
  "config exampleClient = Some 0 \<and> 0 < length exampleStore \<and>
   fst (getConfig exampleStore exampleClient) = 2 \<and>
   snd (getConfig exampleStore exampleClient) ! 2 = exampleStore ! 0 \<and>
   readPath (snd (getConfig exampleStore exampleClient)) (Ref 2) [''generationConfig'']
     = Some (Ref 1) \<and>
   readPath exampleStore (Ref 0) [''generationConfig''] = Some (Ref 1) \<and>
   take 2 (fold (mutate 2) [Assign ''model'' (Prim (JString ''other'')), Delete ''generationConfig'']
             (snd (getConfig exampleStore exampleClient))) = exampleStore"
  using getConfig_copy [of exampleClient exampleStore
          "[Assign ''model'' (Prim (JString ''other'')), Delete ''generationConfig'']"]
  by (simp add: exampleClient_def exampleStore_def getConfig_def)

text \<open>
  The claim as it is written fails for a write that goes through the returned object
  into an object nested in the configuration. The stored configuration is object 0, with
  \<^verbatim>\<open>generationConfig.temperature\<close> equal to 1; the copy is object 2; after
  \<^verbatim>\<open>copy.generationConfig.temperature = 2\<close> the stored configuration reads 2 there.
\<close>

theorem getConfig_counterexample:
  "config exampleClient = Some 0 \<and>
   fst (getConfig exampleStore exampleClient) = 2 \<and>
   readPath exampleStore (Ref 0) [''generationConfig'', ''temperature''] = Some (Prim (JNum 1)) \<and>
   readPath (writePath 2 [''generationConfig''] ''temperature'' (Prim (JNum 2))
               (snd (getConfig exampleStore exampleClient)))
            (Ref 0) [''generationConfig'', ''temperature'']
     = Some (Prim (JNum 2))"
  by (simp add: exampleClient_def exampleStore_def getConfig_def writePath_def)

section \<open>Laws of the computations\<close>

lemma andThen_emit [simp]: "andThen (emit ev) k = (Emit ev # fst k, snd k)"
  by (simp add: andThen_def bind_def emit_def split: prod.splits)

lemma andThen_log [simp]: "andThen (log ty) k = (Emit (EvLog ty) # fst k, snd k)"
  by (simp add: log_def)

lemma andThen_ok [simp]: "andThen (ok u) k = k"
  by (simp add: andThen_def bind_def ok_def split: prod.splits)

lemma andThen_pair_Inr [simp]: "andThen (t, Inr u) k = (t @ fst k, snd k)"
  by (simp add: andThen_def bind_def split: prod.splits)

lemma andThen_pair_Inl [simp]: "andThen (t, Inl err) k = (t, Inl err)"
  by (simp add: andThen_def bind_def)

lemma andThen_Inr: "snd m = Inr u \<Longrightarrow> andThen m k = (fst m @ fst k, snd k)"
  by (cases m) (simp add: andThen_def bind_def split: prod.splits)

lemma andThen_Inl: "snd m = Inl err \<Longrightarrow> andThen m k = (fst m, Inl err)"
  by (cases m) (simp add: andThen_def bind_def split: prod.splits)

lemma fst_emit [simp]: "fst (emit ev) = [Emit ev]" and snd_emit [simp]: "snd (emit ev) = Inr ()"
  by (simp_all add: emit_def)

lemma fst_log [simp]: "fst (log ty) = [Emit (EvLog ty)]" and snd_log [simp]: "snd (log ty) = Inr ()"
  by (simp_all add: log_def)

lemma fst_ok [simp]: "fst (ok a) = []" and snd_ok [simp]: "snd (ok a) = Inr a"
  by (simp_all add: ok_def)

lemma emitted_append [simp]: "emitted (a @ b) = emitted a @ emitted b"
  by (induction a) (simp_all split: effect.splits)

lemma send_open:
  "ws s = Some h \<Longrightarrow>
   send s parts tc = ([WsSend h (ClientContentMessage [(''user'', parts)] tc), Emit (EvLog ''client.send'')], Inr ())"
  by (simp add: send_def sendDirect_def andThen_Inr)

lemma difference_filter: "difference xs (filter P xs) = filter (\<lambda>x. \<not> P x) xs"
  by (auto simp: difference_def intro: filter_cong)

lemma snd_emitAudio [simp]: "snd (emitAudio e bs) = Inr ()"
  by (induction bs) (simp_all add: andThen_Inr split: option.splits)

lemma fst_emitAudio_Cons:
  "fst (emitAudio e (b # bs)) =
     (case b of None \<Rightarrow> [] | Some d \<Rightarrow> if d = [] then [] else [Emit (EvAudio (base64ToArrayBuffer e d)), Emit (EvLog ''server.audio'')])
     @ fst (emitAudio e bs)"
  by (simp add: andThen_Inr split: option.splits)

lemma audio_events_emitAudio:
  "audioContentEvents (fst (emitAudio e (map inlineDataOf ps)))
     = map (\<lambda>d. EvAudio (base64ToArrayBuffer e d)) (filter (\<lambda>d. d \<noteq> []) (map payloadOf ps))"
proof (induction ps)
  case Nil
  show ?case by (simp add: audioContentEvents_def)
next
  case (Cons p ps)
  then show ?case
    by (cases p)
       (simp_all add: fst_emitAudio_Cons audioContentEvents_def inlineDataOf_def payloadOf_def
          isAudioOrContent_def del: emitAudio.simps)
qed

lemma receive_modelTurn:
  assumes "\<not> isInterrupted sc" and "modelTurn sc = Some parts"
  shows "receive e s (ServerContentMessage sc)
           = ((if isTurnComplete sc then [Emit (EvLog ''server.send''), Emit EvTurnComplete] else [])
                @ fst (receiveModelTurn e s parts),
              snd (receiveModelTurn e s parts))"
  using assms by (simp add: receive_def)

lemma receiveModelTurn_clean:
  assumes "\<not> hasCodeSyntax (stringify (JArray (map part_json parts)))"
  shows "receiveModelTurn e s parts
           = (fst (emitAudio e (map inlineDataOf (filter isAudioPart parts)))
                @ (if filter (\<lambda>p. \<not> isAudioPart p) parts = [] then []
                   else [Emit (EvContent (filter (\<lambda>p. \<not> isAudioPart p) parts)),
                         Emit (EvLog ''server.content'')]),
              Inr ())"
  using assms by (simp add: receiveModelTurn_def Let_def difference_filter andThen_Inr)

lemma receiveModelTurn_guard:
  assumes "hasCodeSyntax (stringify (JArray (map part_json parts)))" and "ws s = Some h"
  shows "receiveModelTurn e s parts
           = ([Emit (EvLog ''server.error''),
               WsSend h (ClientContentMessage [(''user'', [errorMessage s])] True),
               Emit (EvLog ''client.send''),
               Emit (EvContent [errorMessage s])],
              Inr ())"
  using assms by (simp add: receiveModelTurn_def send_open andThen_Inr)

lemma receiveModelTurn_guard_closed:
  assumes "hasCodeSyntax (stringify (JArray (map part_json parts)))" and "ws s = None"
  shows "receiveModelTurn e s parts
           = ([Emit (EvLog ''server.error'')], Inl (Error ''WebSocket is not connected''))"
  using assms by (simp add: receiveModelTurn_def send_def sendDirect_def throw_def)

section \<open>A model turn\<close>

text \<open>
  Claim C1, as the code has it. A frame that carries a model turn and is not flagged as
  interrupted, and whose serialised parts hold none of the four markers, gives one audio
  event for every audio part with a non-empty payload, with the decoded payload and in
  the order of the parts, and after them the content event with the parts that are not
  audio, in their order; there is no content event exactly when there is no such part.
  Nothing is thrown.
\<close>

theorem model_turn_demultiplexed:
  assumes "\<not> isInterrupted sc" and "modelTurn sc = Some parts"
    and "\<not> hasCodeSyntax (stringify (JArray (map part_json parts)))"
  shows "audioContentEvents (fst (receive e s (ServerContentMessage sc)))
           = map (\<lambda>d. EvAudio (base64ToArrayBuffer e d))
               (filter (\<lambda>d. d \<noteq> []) (map payloadOf (filter isAudioPart parts)))
             @ (if filter (\<lambda>p. \<not> isAudioPart p) parts = [] then []
                else [EvContent (filter (\<lambda>p. \<not> isAudioPart p) parts)])
         \<and> snd (receive e s (ServerContentMessage sc)) = Inr ()"
proof -
  have ev: "audioContentEvents (a @ b) = audioContentEvents a @ audioContentEvents b" for a b
    by (simp add: audioContentEvents_def)
  show ?thesis
    using audio_events_emitAudio [of e "filter isAudioPart parts"]
    by (simp add: receive_modelTurn [OF assms(1,2)] receiveModelTurn_clean [OF assms(3)] ev)
       (simp add: audioContentEvents_def isAudioOrContent_def)
qed

theorem model_turn_demultiplexed_witness:
  "\<not> hasCodeSyntax
       (stringify (JArray (map part_json [InlineDataPart ''audio/pcm'' ''AAAA'', TextPart ''hi'']))) \<and>
   audioContentEvents
       (fst (receive exampleEnv exampleClient
               (modelTurnOf [InlineDataPart ''audio/pcm'' ''AAAA'', TextPart ''hi''])))
     = [EvAudio (base64ToArrayBuffer exampleEnv ''AAAA''), EvContent [TextPart ''hi'']] \<and>
   snd (receive exampleEnv exampleClient
          (modelTurnOf [InlineDataPart ''audio/pcm'' ''AAAA'', TextPart ''hi''])) = Inr ()"
proof -
  have h: "\<not> hasCodeSyntax
       (stringify (JArray (map part_json [InlineDataPart ''audio/pcm'' ''AAAA'', TextPart ''hi''])))"
    by code_simp
  show ?thesis
    using h model_turn_demultiplexed
      [of "\<lparr>isInterrupted = False, isTurnComplete = False,
            modelTurn = Some [InlineDataPart ''audio/pcm'' ''AAAA'', TextPart ''hi'']\<rparr>"
          "[InlineDataPart ''audio/pcm'' ''AAAA'', TextPart ''hi'']" exampleEnv exampleClient]
    by (simp add: modelTurnOf_def isAudioPart_def startsWith_def payloadOf_def inlineDataOf_def)
qed

text \<open>
  The claim as it is written fails on two turns, each with one audio part. In the first
  a text part holds the marker \<^verbatim>\<open>print(\<close>: no audio event is emitted, and the content
  event carries the corrective text instead of the text part. In the second the payload
  of the audio part is empty: it gets no audio event.
\<close>

theorem model_turn_counterexample:
  "length (filter isAudioPart [InlineDataPart ''audio/pcm'' ''AAAA'', TextPart ''print(1)'']) = 1 \<and>
   audioContentEvents
       (fst (receive exampleEnv exampleClient
               (modelTurnOf [InlineDataPart ''audio/pcm'' ''AAAA'', TextPart ''print(1)''])))
     = [EvContent [errorMessage exampleClient]] \<and>
   length (filter isAudioPart [InlineDataPart ''audio/pcm'' [], TextPart ''hi'']) = 1 \<and>
   audioContentEvents
       (fst (receive exampleEnv exampleClient
               (modelTurnOf [InlineDataPart ''audio/pcm'' [], TextPart ''hi''])))
     = [EvContent [TextPart ''hi'']]"
  by code_simp

text \<open>
  Claim C7, as the code has it. A frame that carries a model turn and is not flagged as
  interrupted, processed while the client owns a socket, and whose serialised parts hold
  a marker: after the turn-complete event, if the frame has that flag too, the effects
  are a log entry, one client-content frame written to the socket, its log entry, and one
  content event. The frame and the event carry the same single text part, the corrective
  text with the file id taken from the address of the client. There is no audio event and
  no other content event, and nothing is thrown.
\<close>

theorem code_syntax_in_model_turn:
  assumes "ws s = Some h" and "\<not> isInterrupted sc" and "modelTurn sc = Some parts"
    and "hasCodeSyntax (stringify (JArray (map part_json parts)))"
  shows "(let correctiveText =
            join [CHR 0x0A]
              [[CHR 0xE2, CHR 0x9A, CHR 0xA0, CHR 0xEF, CHR 0xB8, CHR 0x8F]
                 @ '' ERROR: Invalid syntax detected. You must use this exact JSON format:'',
               ''{'',
               ''  '' @ [CHR 0x22] @ ''name'' @ [CHR 0x22] @ '': '' @ [CHR 0x22] @ ''pdf_lookup''
                 @ [CHR 0x22] @ '','',
               ''  '' @ [CHR 0x22] @ ''args'' @ [CHR 0x22] @ '': {'',
               ''    '' @ [CHR 0x22] @ ''pdfUri'' @ [CHR 0x22] @ '': '' @ [CHR 0x22]
                 @ fileIdOfUrl (url s) @ [CHR 0x22],
               ''  }'',
               ''}'',
               [],
               [CHR 0xE2, CHR 0x9D, CHR 0x8C] @ '' DO NOT USE:'',
               ''- Python code (print, function calls)'',
               ''- Any programming syntax'',
               ''- Any other parameters'',
               [],
               [CHR 0xE2, CHR 0x9C, CHR 0x85]
                 @ '' COPY AND PASTE the exact JSON format above, just change the pdfUri value.'']
         in receive e s (ServerContentMessage sc)
              = ((if isTurnComplete sc then [Emit (EvLog ''server.send''), Emit EvTurnComplete] else [])
                 @ [Emit (EvLog ''server.error''),
                    WsSend h (ClientContentMessage [(''user'', [TextPart correctiveText])] True),
                    Emit (EvLog ''client.send''),
                    Emit (EvContent [TextPart correctiveText])],
                 Inr ()))"
  by (simp add: receive_modelTurn [OF assms(2,3)] receiveModelTurn_guard [OF assms(4,1)]
        errorMessage_def errorMessageText_def Let_def)

theorem code_syntax_in_model_turn_witness:
  "ws exampleClientFiles = Some 1 \<and>
   hasCodeSyntax
       (stringify (JArray (map part_json
          [InlineDataPart ''audio/pcm'' ''AAAA'', ExecutableCodePart ''PYTHON'' ''print(1)'']))) \<and>
   fileIdOfUrl (url exampleClientFiles) = ''abc123'' \<and>
   (let correctiveText =
            join [CHR 0x0A]
              [[CHR 0xE2, CHR 0x9A, CHR 0xA0, CHR 0xEF, CHR 0xB8, CHR 0x8F]
                 @ '' ERROR: Invalid syntax detected. You must use this exact JSON format:'',
               ''{'',
               ''  '' @ [CHR 0x22] @ ''name'' @ [CHR 0x22] @ '': '' @ [CHR 0x22] @ ''pdf_lookup''
                 @ [CHR 0x22] @ '','',
               ''  '' @ [CHR 0x22] @ ''args'' @ [CHR 0x22] @ '': {'',
               ''    '' @ [CHR 0x22] @ ''pdfUri'' @ [CHR 0x22] @ '': '' @ [CHR 0x22]
                 @ ''abc123'' @ [CHR 0x22],
               ''  }'',
               ''}'',
               [],
               [CHR 0xE2, CHR 0x9D, CHR 0x8C] @ '' DO NOT USE:'',
               ''- Python code (print, function calls)'',
               ''- Any programming syntax'',
               ''- Any other parameters'',
               [],
               [CHR 0xE2, CHR 0x9C, CHR 0x85]
                 @ '' COPY AND PASTE the exact JSON format above, just change the pdfUri value.'']
    in receive exampleEnv exampleClientFiles
         (modelTurnOf [InlineDataPart ''audio/pcm'' ''AAAA'', ExecutableCodePart ''PYTHON'' ''print(1)''])
       = ([Emit (EvLog ''server.error''),
           WsSend 1 (ClientContentMessage [(''user'', [TextPart correctiveText])] True),
           Emit (EvLog ''client.send''),
           Emit (EvContent [TextPart correctiveText])],
          Inr ()))"
proof -
  have h: "hasCodeSyntax
       (stringify (JArray (map part_json
          [InlineDataPart ''audio/pcm'' ''AAAA'', ExecutableCodePart ''PYTHON'' ''print(1)''])))"
    by code_simp
  have w: "ws exampleClientFiles = Some 1"
    by (simp add: exampleClientFiles_def)
  have f: "fileIdOfUrl (url exampleClientFiles) = ''abc123''"
    by code_simp
  show ?thesis
    using h w f code_syntax_in_model_turn
      [of exampleClientFiles 1
          "\<lparr>isInterrupted = False, isTurnComplete = False,
            modelTurn = Some [InlineDataPart ''audio/pcm'' ''AAAA'',
                              ExecutableCodePart ''PYTHON'' ''print(1)'']\<rparr>"
          "[InlineDataPart ''audio/pcm'' ''AAAA'', ExecutableCodePart ''PYTHON'' ''print(1)'']"
          exampleEnv]
    by (simp add: modelTurnOf_def Let_def)
qed

text \<open>
  The claim as it is written fails when the client owns no socket while the frame is
  processed, as after a \<^verbatim>\<open>disconnect\<close> that ran before the frame was read: the send throws,
  so that nothing is sent and no content event is emitted; the one effect is a log
  entry.
\<close>

theorem code_syntax_in_model_turn_counterexample:
  "hasCodeSyntax (stringify (JArray (map part_json [ExecutableCodePart ''PYTHON'' ''print(1)'']))) \<and>
   receive exampleEnv (exampleClient\<lparr>ws := None\<rparr>)
       (modelTurnOf [ExecutableCodePart ''PYTHON'' ''print(1)''])
     = ([Emit (EvLog ''server.error'')], Inl (Error ''WebSocket is not connected''))"
  by code_simp

section \<open>The gatekeeper\<close>

lemma bind_Inr: "snd m = Inr a \<Longrightarrow> bind m f = (fst m @ fst (f a), snd (f a))"
  by (cases m) (simp add: bind_def split: prod.splits)

lemma bind_Inl: "snd m = Inl err \<Longrightarrow> bind m f = (fst m, Inl err)"
  by (cases m) (simp add: bind_def)

lemma sendToolResponse_open:
  "ws s = Some h \<Longrightarrow>
   sendToolResponse s rs
     = ([WsSend h (ToolResponseMessage rs), Emit (EvLog ''client.toolResponse'')], Inr ())"
  by (simp add: sendToolResponse_def sendDirect_def)

lemma sendToolResponse_closed:
  "ws s = None \<Longrightarrow> sendToolResponse s rs = ([], Inl (Error ''WebSocket is not connected''))"
  by (simp add: sendToolResponse_def sendDirect_def throw_def)

lemma sentResponses_append [simp]: "sentResponses (a @ b) = sentResponses a @ sentResponses b"
  by (induction a) (simp_all split: effect.splits outgoing.splits)

lemma fetches_append [simp]: "fetches (a @ b) = fetches a @ fetches b"
  by (induction a) (simp_all split: effect.splits)

lemma checkCall_open:
  assumes "ws s = Some h"
  shows "snd (checkCall s fc) = Inr (isValidCall fc)"
    and "sentResponses (fst (checkCall s fc)) = map (\<lambda>r. [r]) (correction fc)"
    and "fetches (fst (checkCall s fc)) = []"
    and "filter isToolCallEvent (emitted (fst (checkCall s fc))) = []"
  by (simp_all add: checkCall_def sendToolResponse_open [OF assms] isValidCall_def correction_def
        isPlainObject_def argsStrOf_def hasInvalidPattern_def isToolCallEvent_def Let_def)

lemma filterCalls_open:
  assumes "ws s = Some h"
  shows "snd (filterCalls s calls) = Inr (filter isValidCall calls)"
    and "sentResponses (fst (filterCalls s calls))
           = concat (map (\<lambda>fc. map (\<lambda>r. [r]) (correction fc)) calls)"
    and "fetches (fst (filterCalls s calls)) = []"
    and "filter isToolCallEvent (emitted (fst (filterCalls s calls))) = []"
proof (induction calls)
  case Nil
  {
    case 1 show ?case by simp
  next
    case 2 show ?case by simp
  next
    case 3 show ?case by simp
  next
    case 4 show ?case by simp
  }
next
  case (Cons fc fcs)
  have step: "filterCalls s (fc # fcs)
      = (fst (checkCall s fc) @ fst (filterCalls s fcs),
         Inr (if isValidCall fc then fc # filter isValidCall fcs else filter isValidCall fcs))"
    by (simp add: bind_Inr [OF checkCall_open(1) [OF assms]] bind_Inr [OF Cons(1)])
  {
    case 1 show ?case by (simp add: step del: filterCalls.simps)
  next
    case 2 show ?case by (simp add: step checkCall_open(2) [OF assms] Cons(2) del: filterCalls.simps)
  next
    case 3 show ?case by (simp add: step checkCall_open(3) [OF assms] Cons(3) del: filterCalls.simps)
  next
    case 4 show ?case by (simp add: step checkCall_open(4) [OF assms] Cons(4) del: filterCalls.simps)
  }
qed

lemma fst_promiseAll: "fst (promiseAll ps) = concat (map fst ps)"
  by (induction ps) (auto split: prod.splits)

lemma promiseAll_Inl:
  "p \<in> set ps \<Longrightarrow> snd p = Inl err \<Longrightarrow> \<exists>err'. snd (promiseAll ps) = Inl err'"
  by (induction ps) (auto split: prod.splits sum.splits)

lemma promiseAll_Inr:
  "snd (promiseAll ps) = Inr rs \<Longrightarrow> map snd ps = map Inr rs"
  by (induction ps arbitrary: rs) (auto split: prod.splits sum.splits)

lemma fst_lookupCall:
  "fst (lookupCall e fc) = map Fetch (requests [fc])"
  by (simp add: lookupCall_def requests_def split: option.splits)

lemma fst_lookups: "concat (map (fst \<circ> lookupCall e) cs) = map Fetch (requests cs)"
proof (induction cs)
  case Nil
  show ?case by (simp add: requests_def)
next
  case (Cons c cs)
  have "requests (c # cs) = requests [c] @ requests cs"
    by (simp add: requests_def)
  with Cons show ?case by (simp add: fst_lookupCall)
qed

lemma lookupCall_id: "snd (lookupCall e fc) = Inr r \<Longrightarrow> resp_id r = call_id fc \<and> hasText r"
  by (auto simp: lookupCall_def textResponse_def hasText_def split: option.splits if_splits sum.splits)

lemma fetches_map_Fetch [simp]: "fetches (map Fetch us) = us"
  by (induction us) simp_all

lemma sentResponses_map_Fetch [simp]: "sentResponses (map Fetch us) = []"
  by (induction us) simp_all

lemma emitted_map_Fetch [simp]: "emitted (map Fetch us) = []"
  by (induction us) simp_all

lemma snd_bind_InrD:
  "snd (bind m f) = Inr b \<Longrightarrow> \<exists>a. snd m = Inr a \<and> snd (f a) = Inr b"
  by (cases "snd m") (simp_all add: bind_Inl bind_Inr)

text \<open>Without a socket the filter sends nothing, and what it answers is the same.\<close>

lemma sent_bind_empty:
  "sentResponses (fst m) = [] \<Longrightarrow> (\<And>a. sentResponses (fst (f a)) = []) \<Longrightarrow>
   sentResponses (fst (bind m f)) = []"
  by (cases "snd m") (simp_all add: bind_Inl bind_Inr)

lemma sent_checkCall_closed:
  "ws s = None \<Longrightarrow> sentResponses (fst (checkCall s fc)) = []"
  by (simp add: checkCall_def sendToolResponse_closed Let_def)

lemma sent_filterCalls_closed:
  "ws s = None \<Longrightarrow> sentResponses (fst (filterCalls s calls)) = []"
  by (induction calls) (simp_all add: sent_bind_empty sent_checkCall_closed)

lemma checkCall_result:
  assumes "snd (checkCall s fc) = Inr b"
  shows "b = isValidCall fc"
proof (cases "ws s")
  case None
  show ?thesis
    using assms
    by (simp add: checkCall_def sendToolResponse_closed [OF None] isValidCall_def
          isPlainObject_def argsStrOf_def hasInvalidPattern_def Let_def split: if_splits)
next
  case (Some h)
  show ?thesis
    using assms checkCall_open(1) [OF Some, of fc] by simp
qed

lemma filterCalls_result:
  "snd (filterCalls s calls) = Inr kept \<Longrightarrow> kept = filter isValidCall calls"
proof (induction calls arbitrary: kept)
  case Nil
  then show ?case by simp
next
  case (Cons fc fcs)
  from Cons.prems obtain keep where k: "snd (checkCall s fc) = Inr keep"
    and r: "snd (bind (filterCalls s fcs) (\<lambda>rest. ok (if keep then fc # rest else rest))) = Inr kept"
    using snd_bind_InrD [of "checkCall s fc"] by fastforce
  from r obtain rest where f: "snd (filterCalls s fcs) = Inr rest"
    and o: "snd (ok (if keep then fc # rest else rest) :: function_call list comp) = Inr kept"
    using snd_bind_InrD [of "filterCalls s fcs"] by fastforce
  have "rest = filter isValidCall fcs"
    by (rule Cons.IH [OF f])
  moreover have "keep = isValidCall fc"
    by (rule checkCall_result [OF k])
  ultimately show ?case
    using o by auto
qed

lemma sent_filterCalls:
  assumes "rs \<in> set (sentResponses (fst (filterCalls s calls)))"
  shows "\<exists>fc \<in> set calls. \<exists>r \<in> set (correction fc). rs = [r]"
proof (cases "ws s")
  case None
  then show ?thesis using assms by (simp add: sent_filterCalls_closed)
next
  case (Some h)
  then show ?thesis using assms by (auto simp: filterCalls_open(2))
qed

text \<open>The lookups, with a socket owned when they settle and without.\<close>

lemma executeCalls_failure:
  assumes "ws (afterAwait e s) = Some h" and "snd (promiseAll (map (lookupCall e) cs)) = Inl err"
  shows "executeCalls e s cs
           = (map Fetch (requests cs)
                @ [WsSend h (ToolResponseMessage (map (\<lambda>fc. fetchFailedResponse (call_id fc)) cs)),
                   Emit (EvLog ''client.toolResponse'')],
              Inr ())"
  by (simp add: executeCalls_def Let_def bind_Inl [OF assms(2)] sendToolResponse_open [OF assms(1)]
        fst_promiseAll fst_lookups)

lemma executeCalls_success:
  assumes "ws (afterAwait e s) = Some h" and "snd (promiseAll (map (lookupCall e) cs)) = Inr rs"
  shows "executeCalls e s cs
           = (map Fetch (requests cs)
                @ [WsSend h (ToolResponseMessage rs), Emit (EvLog ''client.toolResponse'')],
              Inr ())"
  by (simp add: executeCalls_def Let_def bind_Inr [OF assms(2)] sendToolResponse_open [OF assms(1)]
        fst_promiseAll fst_lookups)

lemma executeCalls_closed:
  assumes "ws (afterAwait e s) = None"
  shows "executeCalls e s cs
           = (map Fetch (requests cs), Inl (Error ''WebSocket is not connected''))"
proof (cases "snd (promiseAll (map (lookupCall e) cs))")
  case (Inl err)
  show ?thesis
    by (simp add: executeCalls_def Let_def bind_Inl [OF Inl] sendToolResponse_closed [OF assms]
          fst_promiseAll fst_lookups)
next
  case (Inr rs)
  show ?thesis
    by (simp add: executeCalls_def Let_def bind_Inr [OF Inr] sendToolResponse_closed [OF assms]
          fst_promiseAll fst_lookups)
qed

text \<open>What follows the filter: the lookups, if a call was kept, and the toolcall event.\<close>

lemma execute_then_emit:
  "\<exists>rs. andThen (if length kept > 0 then executeCalls e s kept else ok ()) (emit ev)
          = (if kept = [] then ([Emit ev], Inr ())
             else (case ws (afterAwait e s) of
                     None \<Rightarrow> (map Fetch (requests kept), Inl (Error ''WebSocket is not connected''))
                   | Some h \<Rightarrow>
                       (map Fetch (requests kept)
                          @ [WsSend h (ToolResponseMessage rs),
                             Emit (EvLog ''client.toolResponse''), Emit ev],
                        Inr ())))
        \<and> (snd (promiseAll (map (lookupCall e) kept)) = Inr rs
           \<or> ((\<exists>err. snd (promiseAll (map (lookupCall e) kept)) = Inl err)
              \<and> rs = map (\<lambda>fc. fetchFailedResponse (call_id fc)) kept))"
proof (cases "snd (promiseAll (map (lookupCall e) kept))")
  case (Inl err)
  show ?thesis
    by (rule exI [of _ "map (\<lambda>fc. fetchFailedResponse (call_id fc)) kept"])
       (simp add: Inl executeCalls_closed executeCalls_failure [OF _ Inl] emit_def split: option.splits)
next
  case (Inr rs)
  show ?thesis
    by (rule exI [of _ rs])
       (simp add: Inr executeCalls_closed executeCalls_success [OF _ Inr] emit_def split: option.splits)
qed

lemma receiveToolCall_gate:
  assumes "hasCodeSyntax (stringify (toolCallMessage_json calls))"
  shows "receiveToolCall e s calls
           = (Emit (EvLog ''server.toolCall'') # Emit (EvLog ''server.debug'')
                # fst (sendToolResponse s [codeSyntaxResponse (firstIdOrError calls)]),
              snd (sendToolResponse s [codeSyntaxResponse (firstIdOrError calls)]))"
  using assms by (simp add: receiveToolCall_def)

lemma receiveToolCall_pass:
  assumes "\<not> hasCodeSyntax (stringify (toolCallMessage_json calls))"
    and "snd (filterCalls s calls) = Inr kept"
  shows "receiveToolCall e s calls
           = (Emit (EvLog ''server.toolCall'') # Emit (EvLog ''server.debug'')
                # fst (filterCalls s calls)
                @ fst (andThen (if length kept > 0 then executeCalls e s kept else ok ())
                         (emit (EvToolCall calls))),
              snd (andThen (if length kept > 0 then executeCalls e s kept else ok ())
                     (emit (EvToolCall calls))))"
  using assms(1) by (simp add: receiveToolCall_def bind_Inr [OF assms(2)])

lemma receiveToolCall_throws:
  assumes "\<not> hasCodeSyntax (stringify (toolCallMessage_json calls))"
    and "snd (filterCalls s calls) = Inl err"
  shows "receiveToolCall e s calls
           = (Emit (EvLog ''server.toolCall'') # Emit (EvLog ''server.debug'')
                # fst (filterCalls s calls),
              Inl err)"
  using assms(1) by (simp add: receiveToolCall_def bind_Inl [OF assms(2)])

lemma receive_ToolCall [simp]: "receive e s (ToolCallMessage calls) = receiveToolCall e s calls"
  by (simp add: receive_def)

lemma requests_Nil [simp]: "requests [] = []"
  by (simp add: requests_def)

lemma correction_id: "r \<in> set (correction fc) \<Longrightarrow> resp_id r = call_id fc"
  by (auto simp: correction_def invalidFormatResponse_def invalidStructureResponse_def
        split: if_splits)

lemma promiseAll_ids:
  assumes "snd (promiseAll (map (lookupCall e) cs)) = Inr rs"
  shows "map resp_id rs = map call_id cs"
proof -
  have "map snd (map (lookupCall e) cs) = map Inr rs"
    by (rule promiseAll_Inr [OF assms])
  then have "list_all2 (\<lambda>c r. snd (lookupCall e c) = Inr r) cs rs"
    by (induction cs arbitrary: rs) auto
  then show ?thesis
    by (induction rule: list_all2_induct) (simp_all add: lookupCall_id)
qed

section \<open>A tool call with code syntax in its frame\<close>




section \<open>A call that is not valid\<close>




section \<open>The ids of the responses\<close>

text \<open>
  Claim C4, as the code has it. Every id in an entry of a tool response that is sent
  while a tool-call frame is processed is the id of a call of that frame, or it is
  \<^verbatim>\<open>error\<close>, in the response that rejects a frame with a marker when the frame has no
  first call or the id of its first call is empty.
\<close>

theorem response_ids_from_frame:
  "\<forall>rs \<in> set (sentResponses (fst (receive e s (ToolCallMessage calls)))). \<forall>r \<in> set rs.
     resp_id r \<in> call_id ` set calls \<or>
     (resp_id r = ''error'' \<and> hasCodeSyntax (stringify (toolCallMessage_json calls)) \<and>
      (case calls of [] \<Rightarrow> True | fc # _ \<Rightarrow> call_id fc = []))"
proof (cases "hasCodeSyntax (stringify (toolCallMessage_json calls))")
  case True
  have "resp_id (codeSyntaxResponse (firstIdOrError calls)) \<in> call_id ` set calls \<or>
        (resp_id (codeSyntaxResponse (firstIdOrError calls)) = ''error'' \<and>
         (case calls of [] \<Rightarrow> True | fc # _ \<Rightarrow> call_id fc = []))"
    by (cases calls) (simp_all add: firstIdOrError_def codeSyntaxResponse_def)
  then show ?thesis
    using True
    by (cases "ws s")
       (simp_all add: receiveToolCall_gate [OF True] sendToolResponse_open sendToolResponse_closed)
next
  case False
  have filt: "\<forall>r \<in> set rs. resp_id r \<in> call_id ` set calls"
    if "rs \<in> set (sentResponses (fst (filterCalls s calls)))" for rs
    using sent_filterCalls [OF that] correction_id by fastforce
  show ?thesis
  proof (cases "snd (filterCalls s calls)")
    case (Inl err)
    show ?thesis
      using filt by (simp add: receiveToolCall_throws [OF False Inl])
  next
    case (Inr kept)
    have k: "kept = filter isValidCall calls"
      by (rule filterCalls_result [OF Inr])
    obtain rs0 where x: "andThen (if length kept > 0 then executeCalls e s kept else ok ())
                          (emit (EvToolCall calls))
          = (if kept = [] then ([Emit (EvToolCall calls)], Inr ())
             else (case ws (afterAwait e s) of
                     None \<Rightarrow> (map Fetch (requests kept), Inl (Error ''WebSocket is not connected''))
                   | Some h \<Rightarrow>
                       (map Fetch (requests kept)
                          @ [WsSend h (ToolResponseMessage rs0),
                             Emit (EvLog ''client.toolResponse''), Emit (EvToolCall calls)],
                        Inr ())))"
      and rs0: "snd (promiseAll (map (lookupCall e) kept)) = Inr rs0
           \<or> ((\<exists>err. snd (promiseAll (map (lookupCall e) kept)) = Inl err)
              \<and> rs0 = map (\<lambda>fc. fetchFailedResponse (call_id fc)) kept)"
      using execute_then_emit [of kept e s "EvToolCall calls"] by blast
    have ids0: "map resp_id rs0 = map call_id kept"
      using rs0 promiseAll_ids by (auto simp: fetchFailedResponse_def)
    have in0: "resp_id r \<in> call_id ` set calls" if "r \<in> set rs0" for r
    proof -
      have "resp_id r \<in> set (map resp_id rs0)" using that by simp
      then show ?thesis unfolding ids0 k by auto
    qed
    note whole = receiveToolCall_pass [OF False Inr, of e, unfolded x]
    show ?thesis
      using in0 filt
      by (auto simp: whole split: if_splits option.splits)
  qed
qed

theorem response_ids_from_frame_witness:
  "sentResponses (fst (receive exampleEnv exampleClient (ToolCallMessage [callB, callA])))
     = [[invalidStructureResponse ''2''], [textResponse ''1'' (JString ''hello world'')]] \<and>
   (resp_id (invalidStructureResponse ''2'') \<in> call_id ` set [callB, callA] \<or>
    (resp_id (invalidStructureResponse ''2'') = ''error'' \<and>
     hasCodeSyntax (stringify (toolCallMessage_json [callB, callA])) \<and>
     (case [callB, callA] of [] \<Rightarrow> True | fc # _ \<Rightarrow> call_id fc = []))) \<and>
   (resp_id (textResponse ''1'' (JString ''hello world'')) \<in> call_id ` set [callB, callA] \<or>
    (resp_id (textResponse ''1'' (JString ''hello world'')) = ''error'' \<and>
     hasCodeSyntax (stringify (toolCallMessage_json [callB, callA])) \<and>
     (case [callB, callA] of [] \<Rightarrow> True | fc # _ \<Rightarrow> call_id fc = [])))"
proof -
  have s: "sentResponses (fst (receive exampleEnv exampleClient (ToolCallMessage [callB, callA])))
     = [[invalidStructureResponse ''2''], [textResponse ''1'' (JString ''hello world'')]]"
    by code_simp
  have q: "\<forall>rs \<in> set [[invalidStructureResponse ''2''], [textResponse ''1'' (JString ''hello world'')]].
      \<forall>r \<in> set rs.
        resp_id r \<in> call_id ` set [callB, callA] \<or>
        (resp_id r = ''error'' \<and> hasCodeSyntax (stringify (toolCallMessage_json [callB, callA])) \<and>
         (case [callB, callA] of [] \<Rightarrow> True | fc # _ \<Rightarrow> call_id fc = []))"
    using response_ids_from_frame [of exampleEnv exampleClient "[callB, callA]"]
    unfolding s .
  have q1: "resp_id (invalidStructureResponse ''2'') \<in> call_id ` set [callB, callA] \<or>
    (resp_id (invalidStructureResponse ''2'') = ''error'' \<and>
     hasCodeSyntax (stringify (toolCallMessage_json [callB, callA])) \<and>
     (case [callB, callA] of [] \<Rightarrow> True | fc # _ \<Rightarrow> call_id fc = []))"
    using q by simp
  have q2: "resp_id (textResponse ''1'' (JString ''hello world'')) \<in> call_id ` set [callB, callA] \<or>
    (resp_id (textResponse ''1'' (JString ''hello world'')) = ''error'' \<and>
     hasCodeSyntax (stringify (toolCallMessage_json [callB, callA])) \<and>
     (case [callB, callA] of [] \<Rightarrow> True | fc # _ \<Rightarrow> call_id fc = []))"
    using q by simp
  show ?thesis
    using s q1 q2 by (intro conjI)
qed

text \<open>
  The claim as it is written fails on the frame whose one call has the empty id and
  holds \<^verbatim>\<open>print(\<close>: the response is sent under the id \<^verbatim>\<open>error\<close>, which no call of the
  frame has.
\<close>

theorem response_ids_counterexample:
  "map call_id [callNoId] = [[]] \<and>
   map (map resp_id)
       (sentResponses (fst (receive exampleEnv exampleClient (ToolCallMessage [callNoId]))))
     = [[''error'']]"
  by code_simp

section \<open>The toolcall event\<close>

text \<open>
  Claim C5, as the code has it. A tool-call frame with a marker in its serialisation
  gives no toolcall event. A frame without one, processed while the client owns a socket,
  gives exactly one toolcall event, with the calls as received, as the last effect of the
  frame and with nothing thrown, whatever the validation and the lookups gave, provided
  that no call was kept or that the client owns a socket when the lookups have settled.
  When a call was kept and the client owns no socket by then, the sends that follow the
  lookups throw and there is no toolcall event.
\<close>

theorem toolcall_event_published:
  "(hasCodeSyntax (stringify (toolCallMessage_json calls)) \<longrightarrow>
      filter isToolCallEvent (emitted (fst (receive e s (ToolCallMessage calls)))) = []) \<and>
   (\<not> hasCodeSyntax (stringify (toolCallMessage_json calls)) \<and> ws s = Some h \<and>
    snd (filterCalls s calls) = Inr valid \<and> (valid = [] \<or> ws (afterAwait e s) = Some h') \<longrightarrow>
      filter isToolCallEvent (emitted (fst (receive e s (ToolCallMessage calls)))) = [EvToolCall calls] \<and>
      last (fst (receive e s (ToolCallMessage calls))) = Emit (EvToolCall calls) \<and>
      snd (receive e s (ToolCallMessage calls)) = Inr ()) \<and>
   (\<not> hasCodeSyntax (stringify (toolCallMessage_json calls)) \<and> ws s = Some h \<and>
    snd (filterCalls s calls) = Inr valid \<and> valid \<noteq> [] \<and> ws (afterAwait e s) = None \<longrightarrow>
      filter isToolCallEvent (emitted (fst (receive e s (ToolCallMessage calls)))) = [] \<and>
      snd (receive e s (ToolCallMessage calls)) = Inl (Error ''WebSocket is not connected''))"
proof (intro conjI impI)
  assume g: "hasCodeSyntax (stringify (toolCallMessage_json calls))"
  show "filter isToolCallEvent (emitted (fst (receive e s (ToolCallMessage calls)))) = []"
    by (cases "ws s")
       (simp_all add: receiveToolCall_gate [OF g] sendToolResponse_open sendToolResponse_closed
          isToolCallEvent_def)
next
  assume a: "\<not> hasCodeSyntax (stringify (toolCallMessage_json calls)) \<and> ws s = Some h \<and>
    snd (filterCalls s calls) = Inr valid \<and> (valid = [] \<or> ws (afterAwait e s) = Some h')"
  then have ng: "\<not> hasCodeSyntax (stringify (toolCallMessage_json calls))" and w: "ws s = Some h"
    and v: "snd (filterCalls s calls) = Inr valid"
    and l: "valid = [] \<or> ws (afterAwait e s) = Some h'"
    by simp_all
  obtain rs where x: "andThen (if length valid > 0 then executeCalls e s valid else ok ())
                        (emit (EvToolCall calls))
          = (if valid = [] then ([Emit (EvToolCall calls)], Inr ())
             else (case ws (afterAwait e s) of
                     None \<Rightarrow> (map Fetch (requests valid), Inl (Error ''WebSocket is not connected''))
                   | Some h \<Rightarrow>
                       (map Fetch (requests valid)
                          @ [WsSend h (ToolResponseMessage rs),
                             Emit (EvLog ''client.toolResponse''), Emit (EvToolCall calls)],
                        Inr ())))"
    using execute_then_emit [of valid e s "EvToolCall calls"] by blast
  note whole = receiveToolCall_pass [OF ng v, of e, unfolded x]
  show "filter isToolCallEvent (emitted (fst (receive e s (ToolCallMessage calls)))) = [EvToolCall calls]"
    using l by (auto simp: whole filterCalls_open(4) [OF w] isToolCallEvent_def)
  show "last (fst (receive e s (ToolCallMessage calls))) = Emit (EvToolCall calls)"
    using l by (auto simp: whole)
  show "snd (receive e s (ToolCallMessage calls)) = Inr ()"
    using l by (auto simp: whole)
next
  assume a: "\<not> hasCodeSyntax (stringify (toolCallMessage_json calls)) \<and> ws s = Some h \<and>
    snd (filterCalls s calls) = Inr valid \<and> valid \<noteq> [] \<and> ws (afterAwait e s) = None"
  then have ng: "\<not> hasCodeSyntax (stringify (toolCallMessage_json calls))" and w: "ws s = Some h"
    and v: "snd (filterCalls s calls) = Inr valid"
    and ne: "valid \<noteq> []" and l: "ws (afterAwait e s) = None"
    by simp_all
  obtain rs where x: "andThen (if length valid > 0 then executeCalls e s valid else ok ())
                        (emit (EvToolCall calls))
          = (if valid = [] then ([Emit (EvToolCall calls)], Inr ())
             else (case ws (afterAwait e s) of
                     None \<Rightarrow> (map Fetch (requests valid), Inl (Error ''WebSocket is not connected''))
                   | Some h \<Rightarrow>
                       (map Fetch (requests valid)
                          @ [WsSend h (ToolResponseMessage rs),
                             Emit (EvLog ''client.toolResponse''), Emit (EvToolCall calls)],
                        Inr ())))"
    using execute_then_emit [of valid e s "EvToolCall calls"] by blast
  note whole = receiveToolCall_pass [OF ng v, of e, unfolded x]
  show "filter isToolCallEvent (emitted (fst (receive e s (ToolCallMessage calls)))) = []"
    using ne l by (simp add: whole filterCalls_open(4) [OF w] isToolCallEvent_def)
  show "snd (receive e s (ToolCallMessage calls)) = Inl (Error ''WebSocket is not connected'')"
    using ne l by (simp add: whole)
qed

theorem toolcall_event_published_witness:
  "hasCodeSyntax (stringify (toolCallMessage_json [callPrint])) \<and>
   filter isToolCallEvent
       (emitted (fst (receive exampleEnv exampleClient (ToolCallMessage [callPrint])))) = [] \<and>
   \<not> hasCodeSyntax (stringify (toolCallMessage_json [callB, callMissing])) \<and>
   ws exampleClient = Some 1 \<and>
   snd (filterCalls exampleClient [callB, callMissing]) = Inr [callMissing] \<and>
   ws (afterAwait exampleEnv exampleClient) = Some 1 \<and>
   filter isToolCallEvent
       (emitted (fst (receive exampleEnv exampleClient (ToolCallMessage [callB, callMissing]))))
     = [EvToolCall [callB, callMissing]] \<and>
   last (fst (receive exampleEnv exampleClient (ToolCallMessage [callB, callMissing])))
     = Emit (EvToolCall [callB, callMissing]) \<and>
   snd (receive exampleEnv exampleClient (ToolCallMessage [callB, callMissing])) = Inr () \<and>
   ws (afterAwait exampleEnvLost exampleClient) = None \<and>
   filter isToolCallEvent
       (emitted (fst (receive exampleEnvLost exampleClient (ToolCallMessage [callB, callMissing]))))
     = [] \<and>
   snd (receive exampleEnvLost exampleClient (ToolCallMessage [callB, callMissing]))
     = Inl (Error ''WebSocket is not connected'')"
proof -
  have g: "hasCodeSyntax (stringify (toolCallMessage_json [callPrint]))"
    by code_simp
  have n: "\<not> hasCodeSyntax (stringify (toolCallMessage_json [callB, callMissing]))"
    by code_simp
  have w: "ws exampleClient = Some 1"
    by (simp add: exampleClient_def)
  have v: "snd (filterCalls exampleClient [callB, callMissing]) = Inr [callMissing]"
    by code_simp
  have a: "ws (afterAwait exampleEnv exampleClient) = Some 1"
    by (simp add: exampleEnv_def exampleClient_def)
  have l: "ws (afterAwait exampleEnvLost exampleClient) = None"
    by (simp add: exampleEnvLost_def)
  have ne: "[callMissing] \<noteq> []"
    by simp
  show ?thesis
    using g n w v a l ne
      toolcall_event_published [of "[callPrint]" exampleEnv exampleClient 1 "[]" 1]
      toolcall_event_published [of "[callB, callMissing]" exampleEnv exampleClient 1 "[callMissing]" 1]
      toolcall_event_published [of "[callB, callMissing]" exampleEnvLost exampleClient 1 "[callMissing]" 1]
    by blast
qed

text \<open>
  The claim as it is written fails in three ways. The frame whose one call holds
  \<^verbatim>\<open>print(\<close> is rejected for the marker: its events are three log entries. The frame with
  call 1, which is valid, whose lookup settles after the client was disconnected: the
  send of the result throws, and so does the send of the \<^verbatim>\<open>catch\<close>. The frame with call 2,
  which has two keys, processed by a client that owns no socket: the corrective send of
  the filter throws. None of the three gives a toolcall event.
\<close>

theorem toolcall_event_counterexample:
  "hasCodeSyntax (stringify (toolCallMessage_json [callPrint])) \<and>
   emitted (fst (receive exampleEnv exampleClient (ToolCallMessage [callPrint])))
     = [EvLog ''server.toolCall'', EvLog ''server.debug'', EvLog ''client.toolResponse''] \<and>
   emitted (fst (receive exampleEnvLost exampleClient (ToolCallMessage [callA])))
     = [EvLog ''server.toolCall'', EvLog ''server.debug'', EvLog ''server.debug'',
        EvLog ''server.debug''] \<and>
   snd (receive exampleEnvLost exampleClient (ToolCallMessage [callA]))
     = Inl (Error ''WebSocket is not connected'') \<and>
   emitted (fst (receive exampleEnv (exampleClient\<lparr>ws := None\<rparr>) (ToolCallMessage [callB])))
     = [EvLog ''server.toolCall'', EvLog ''server.debug'', EvLog ''server.debug'',
        EvLog ''server.debug'', EvLog ''server.error''] \<and>
   snd (receive exampleEnv (exampleClient\<lparr>ws := None\<rparr>) (ToolCallMessage [callB]))
     = Inl (Error ''WebSocket is not connected'')"
  by code_simp

section \<open>A lookup that fails\<close>

text \<open>
  Claim C6, as the code has it. Take a tool-call frame that passes the test for markers
  and whose filter returns the calls it keeps, let the request of one of the kept calls
  fail, and let the client own a socket when the lookups have settled. Then, after the
  effects of the filter and the requests for the kept calls, one tool response is sent
  that has for every kept call, in order, an entry under the id of the call with the same
  response: the error text of the failed lookup and the example of the one allowed call.
  The toolcall event follows. No entry of any response sent for the frame has a
  \<^verbatim>\<open>text\<close> member, and nothing is thrown.
\<close>

theorem fetch_failure_uniform:
  assumes "\<not> hasCodeSyntax (stringify (toolCallMessage_json calls))"
    and "snd (filterCalls s calls) = Inr valid"
    and "fc \<in> set valid"
    and "getProp (call_args fc) ''pdfUri'' = Some u"
    and "fetchPdfText e u = Inl err"
    and "ws (afterAwait e s) = Some h"
  shows "fst (receive e s (ToolCallMessage calls))
           = [Emit (EvLog ''server.toolCall''), Emit (EvLog ''server.debug'')]
             @ fst (filterCalls s calls)
             @ map Fetch (requests valid)
             @ [WsSend h (ToolResponseMessage
                  (map (\<lambda>c. \<lparr>resp_id = call_id c,
                              resp_response = JObject
                                [(''error'', JString
                                    (''Failed to fetch PDF content. Remember to use JSON format: { ''
                                     @ [CHR 0x22] @ ''name'' @ [CHR 0x22] @ '': '' @ [CHR 0x22]
                                     @ ''pdf_lookup'' @ [CHR 0x22] @ '', '' @ [CHR 0x22] @ ''args''
                                     @ [CHR 0x22] @ '': { '' @ [CHR 0x22] @ ''pdfUri'' @ [CHR 0x22]
                                     @ '': '' @ [CHR 0x22] @ ''uri_here'' @ [CHR 0x22] @ '' } }'')),
                                 (''example'', JObject
                                    [(''name'', JString ''pdf_lookup''),
                                     (''args'', JObject [(''pdfUri'', JString ''your_uri_here'')])])]\<rparr>)
                     valid)),
                Emit (EvLog ''client.toolResponse''),
                Emit (EvToolCall calls)]
         \<and> (\<forall>rs \<in> set (sentResponses (fst (receive e s (ToolCallMessage calls)))).
               \<forall>r \<in> set rs. getProp (Some (resp_response r)) ''text'' = None)
         \<and> snd (receive e s (ToolCallMessage calls)) = Inr ()"
proof -
  have valid: "valid = filter isValidCall calls"
    by (rule filterCalls_result [OF assms(2)])
  have "snd (lookupCall e fc) = Inl err"
    using assms(3,4,5) by (auto simp: lookupCall_def valid isValidCall_def)
  moreover have "lookupCall e fc \<in> set (map (lookupCall e) valid)"
    using assms(3) by simp
  ultimately obtain err' where fail: "snd (promiseAll (map (lookupCall e) valid)) = Inl err'"
    using promiseAll_Inl by blast
  have ne: "valid \<noteq> []"
    using assms(3) by auto
  have x: "andThen (if length valid > 0 then executeCalls e s valid else ok ())
             (emit (EvToolCall calls))
          = (map Fetch (requests valid)
               @ [WsSend h (ToolResponseMessage (map (\<lambda>c. fetchFailedResponse (call_id c)) valid)),
                  Emit (EvLog ''client.toolResponse''), Emit (EvToolCall calls)],
             Inr ())"
    using ne by (simp add: executeCalls_failure [OF assms(6) fail])
  note whole = receiveToolCall_pass [OF assms(1,2), of e, unfolded x]
  have notext: "getProp (Some (resp_response r)) ''text'' = None" if "r \<in> set (correction c)" for r c
    using that
    by (auto simp: correction_def invalidFormatResponse_def invalidStructureResponse_def
          split: if_splits)
  have notext': "getProp (Some (resp_response (fetchFailedResponse i))) ''text'' = None" for i
    by (simp add: fetchFailedResponse_def)
  have "\<forall>rs \<in> set (sentResponses (fst (receiveToolCall e s calls))).
          \<forall>r \<in> set rs. getProp (Some (resp_response r)) ''text'' = None"
  proof (intro ballI)
    fix rs r
    assume rs: "rs \<in> set (sentResponses (fst (receiveToolCall e s calls)))" and r: "r \<in> set rs"
    from rs have "rs \<in> set (sentResponses (fst (filterCalls s calls)))
                \<or> rs = map (\<lambda>c. fetchFailedResponse (call_id c)) valid"
      by (auto simp: whole)
    then show "getProp (Some (resp_response r)) ''text'' = None"
    proof
      assume "rs \<in> set (sentResponses (fst (filterCalls s calls)))"
      then show ?thesis
        using sent_filterCalls [of rs s calls] r notext by auto
    next
      assume "rs = map (\<lambda>c. fetchFailedResponse (call_id c)) valid"
      then show ?thesis
        using r notext' by auto
    qed
  qed
  then show ?thesis
    by (simp add: whole fetchFailedResponse_def example_json_def)
qed

theorem fetch_failure_uniform_witness:
  "\<not> hasCodeSyntax (stringify (toolCallMessage_json [callB, callA, callMissing])) \<and>
   snd (filterCalls exampleClient [callB, callA, callMissing]) = Inr [callA, callMissing] \<and>
   getProp (call_args callMissing) ''pdfUri'' = Some (JString ''files/missing'') \<and>
   fetchPdfText exampleEnv (JString ''files/missing'')
     = Inl (Error ''Failed to fetch PDF content: Not Found'') \<and>
   ws (afterAwait exampleEnv exampleClient) = Some 1 \<and>
   fst (receive exampleEnv exampleClient (ToolCallMessage [callB, callA, callMissing]))
     = [Emit (EvLog ''server.toolCall''), Emit (EvLog ''server.debug'')]
       @ fst (filterCalls exampleClient [callB, callA, callMissing])
       @ map Fetch (requests [callA, callMissing])
       @ [WsSend 1 (ToolResponseMessage
            (map (\<lambda>c. \<lparr>resp_id = call_id c,
                        resp_response = JObject
                          [(''error'', JString
                              (''Failed to fetch PDF content. Remember to use JSON format: { ''
                               @ [CHR 0x22] @ ''name'' @ [CHR 0x22] @ '': '' @ [CHR 0x22]
                               @ ''pdf_lookup'' @ [CHR 0x22] @ '', '' @ [CHR 0x22] @ ''args''
                               @ [CHR 0x22] @ '': { '' @ [CHR 0x22] @ ''pdfUri'' @ [CHR 0x22]
                               @ '': '' @ [CHR 0x22] @ ''uri_here'' @ [CHR 0x22] @ '' } }'')),
                           (''example'', JObject
                              [(''name'', JString ''pdf_lookup''),
                               (''args'', JObject [(''pdfUri'', JString ''your_uri_here'')])])]\<rparr>)
               [callA, callMissing])),
          Emit (EvLog ''client.toolResponse''),
          Emit (EvToolCall [callB, callA, callMissing])] \<and>
   map (map resp_id)
       (sentResponses (fst (receive exampleEnv exampleClient
                              (ToolCallMessage [callB, callA, callMissing]))))
     = [[''2''], [''1'', ''6'']] \<and>
   getProp (Some (resp_response (invalidStructureResponse ''2''))) ''text'' = None \<and>
   getProp (Some (resp_response (fetchFailedResponse ''1''))) ''text'' = None \<and>
   getProp (Some (resp_response (fetchFailedResponse ''6''))) ''text'' = None \<and>
   snd (receive exampleEnv exampleClient (ToolCallMessage [callB, callA, callMissing])) = Inr ()"
proof -
  have g: "\<not> hasCodeSyntax (stringify (toolCallMessage_json [callB, callA, callMissing]))"
    by code_simp
  have v: "snd (filterCalls exampleClient [callB, callA, callMissing]) = Inr [callA, callMissing]"
    by code_simp
  have m: "callMissing \<in> set [callA, callMissing]"
    by simp
  have u: "getProp (call_args callMissing) ''pdfUri'' = Some (JString ''files/missing'')"
    by (simp add: callMissing_def)
  have f: "fetchPdfText exampleEnv (JString ''files/missing'')
             = Inl (Error ''Failed to fetch PDF content: Not Found'')"
    by (simp add: fetchPdfText_def exampleEnv_def)
  have a: "ws (afterAwait exampleEnv exampleClient) = Some 1"
    by (simp add: exampleEnv_def exampleClient_def)
  have s: "sentResponses (fst (receive exampleEnv exampleClient (ToolCallMessage [callB, callA, callMissing])))
     = [[invalidStructureResponse ''2''], [fetchFailedResponse ''1'', fetchFailedResponse ''6'']]"
    by code_simp
  have i: "map (map resp_id)
       (sentResponses (fst (receive exampleEnv exampleClient
                              (ToolCallMessage [callB, callA, callMissing]))))
     = [[''2''], [''1'', ''6'']]"
    unfolding s by (simp add: invalidStructureResponse_def fetchFailedResponse_def)
  note c = fetch_failure_uniform [OF g v m u f a]
  have q: "\<forall>rs \<in> set [[invalidStructureResponse ''2''],
                        [fetchFailedResponse ''1'', fetchFailedResponse ''6'']].
             \<forall>r \<in> set rs. getProp (Some (resp_response r)) ''text'' = None"
    using c [THEN conjunct2, THEN conjunct1] unfolding s .
  have q1: "getProp (Some (resp_response (invalidStructureResponse ''2''))) ''text'' = None"
    using q by simp
  have q2: "getProp (Some (resp_response (fetchFailedResponse ''1''))) ''text'' = None"
    using q by simp
  have q3: "getProp (Some (resp_response (fetchFailedResponse ''6''))) ''text'' = None"
    using q by simp
  show ?thesis
    using g v u f a c [THEN conjunct1] i q1 q2 q3 c [THEN conjunct2, THEN conjunct2]
    by (intro conjI)
qed

text \<open>
  The claim as it is written fails on the frame with the calls 1 and 6, both valid, when
  the client is disconnected while their lookups are pending. Both PDFs are requested and
  the request for the second fails; the send of the \<^verbatim>\<open>catch\<close> then finds no socket and
  throws: no response is sent for either call.
\<close>

theorem fetch_failure_counterexample:
  "\<not> hasCodeSyntax (stringify (toolCallMessage_json [callA, callMissing])) \<and>
   snd (filterCalls exampleClient [callA, callMissing]) = Inr [callA, callMissing] \<and>
   fetchPdfText exampleEnvLost (JString ''files/missing'')
     = Inl (Error ''Failed to fetch PDF content: Not Found'') \<and>
   fetches (fst (receive exampleEnvLost exampleClient (ToolCallMessage [callA, callMissing])))
     = [JString ''files/abc123'', JString ''files/missing''] \<and>
   sentResponses (fst (receive exampleEnvLost exampleClient (ToolCallMessage [callA, callMissing])))
     = [] \<and>
   snd (receive exampleEnvLost exampleClient (ToolCallMessage [callA, callMissing]))
     = Inl (Error ''WebSocket is not connected'')"
  by code_simp

end
